theory Spec2Isabelle
  imports Main "HOL-Library.Word" "HOL-Library.Signed_Division" "HOL-Library.List_Lexorder"
    "HOL-Library.Char_ord"
begin

section \<open>Go maps\<close>

text \<open>
  A Go map is modelled as an association list with distinct keys. The order of the list
  stands for the order in which a \<^verbatim>\<open>range\<close> statement visits the entries, which the Go
  runtime chooses freely: a statement about the program has to hold for every order.
  Reading a key that is absent yields the zero value of the element type, which for the
  slice-valued maps of this program is the empty slice.
\<close>

type_synonym ('k, 'v) gomap = "('k \<times> 'v) list"

definition index_slices :: "('k, 'v list) gomap \<Rightarrow> 'k \<Rightarrow> 'v list" where
  "index_slices m k = (case map_of m k of None \<Rightarrow> [] | Some vs \<Rightarrow> vs)"

definition assign :: "('k, 'v) gomap \<Rightarrow> 'k \<Rightarrow> 'v \<Rightarrow> ('k, 'v) gomap" where
  "assign m k v = (if k \<in> fst ` set m
                   then map (\<lambda>(k', v'). if k' = k then (k', v) else (k', v')) m
                   else m @ [(k, v)])"

section \<open>worlds/Dimension.go\<close>

text \<open>
  \<^verbatim>\<open>interfaces.IBlock\<close>, \<^verbatim>\<open>interfaces.IPlayer\<close> and \<^verbatim>\<open>interfaces.IChunk\<close> are interfaces
  declared outside the sources at hand. A block is modelled by what \<^verbatim>\<open>GetId\<close> and
  \<^verbatim>\<open>GetData\<close> return, a player by what \<^verbatim>\<open>GetSession\<close> returns; chunks stay abstract.
\<close>

record IBlock =
  GetId :: int
  GetData :: int

record 's IPlayer =
  GetSession :: 's

text \<open>
  \<^verbatim>\<open>packets.UpdateBlockPacket\<close>, with the three fields that \<^verbatim>\<open>UpdateBlocks\<close> assigns.
  The conversion \<^verbatim>\<open>uint32(v)\<close> keeps the low 32 bits.
\<close>

record UpdateBlockPacket =
  BlockId :: "32 word"
  BlockMetadata :: "32 word"
  Flags :: "32 word"

definition uint32 :: "int \<Rightarrow> 32 word" where
  "uint32 v = word_of_int v"

text \<open>
  \<^verbatim>\<open>net.MinecraftPacketBatch\<close>: the packets added so far, oldest first.
\<close>

type_synonym MinecraftPacketBatch = "UpdateBlockPacket list"

definition NewMinecraftPacketBatch :: MinecraftPacketBatch where
  "NewMinecraftPacketBatch = []"

definition AddPacket :: "MinecraftPacketBatch \<Rightarrow> UpdateBlockPacket \<Rightarrow> MinecraftPacketBatch" where
  "AddPacket batch pk = batch @ [pk]"

text \<open>
  A call of \<^verbatim>\<open>SendBatch(batch, session)\<close> on the server's RakLib adapter is an effect
  outside the dimension; the model returns the calls in the order they are made.
\<close>

datatype 's adapter_call = SendBatch MinecraftPacketBatch 's

text \<open>
  The struct \<^verbatim>\<open>Dimension\<close>. The field \<^verbatim>\<open>level\<close> is a reference back to the owning level,
  used only to reach the adapter; the model leaves it out. Go's \<^verbatim>\<open>int\<close> keys are never
  computed with in this file and are modelled as \<^typ>\<open>int\<close>.
\<close>

record ('c, 's) Dimension =
  name :: string
  dimensionId :: int
  chunks :: "(int, 'c) gomap"
  chunkPlayers :: "(int, 's IPlayer list) gomap"
  updatedBlocks :: "(int, IBlock list) gomap"

text \<open>
  \<^verbatim>\<open>GetChunkIndex\<close> and \<^verbatim>\<open>GetChunkCoordinates\<close> are defined outside the sources at hand.
  Every function that calls them takes the pair as its first argument.
\<close>

record chunk_packing =
  GetChunkIndex :: "int \<Rightarrow> int \<Rightarrow> int"
  GetChunkCoordinates :: "int \<Rightarrow> int \<times> int"

definition NewDimension :: "string \<Rightarrow> int \<Rightarrow> (int, 'c) gomap \<Rightarrow> ('c, 's) Dimension" where
  "NewDimension nm dimId chs =
     \<lparr>name = nm, dimensionId = dimId, chunks = chs, chunkPlayers = [], updatedBlocks = []\<rparr>"

definition GetDimensionId :: "('c, 's) Dimension \<Rightarrow> int" where
  "GetDimensionId dimension = dimensionId dimension"

definition GetName :: "('c, 's) Dimension \<Rightarrow> string" where
  "GetName dimension = name dimension"

definition SetChunk :: "chunk_packing \<Rightarrow> int \<Rightarrow> int \<Rightarrow> 'c \<Rightarrow> ('c, 's) Dimension \<Rightarrow> ('c, 's) Dimension" where
  "SetChunk cp x z chunk dimension =
     dimension\<lparr>chunks := assign (chunks dimension) (GetChunkIndex cp x z) chunk\<rparr>"

definition GetChunk :: "chunk_packing \<Rightarrow> int \<Rightarrow> int \<Rightarrow> ('c, 's) Dimension \<Rightarrow> 'c option" where
  "GetChunk cp x z dimension = map_of (chunks dimension) (GetChunkIndex cp x z)"

definition GetChunkPlayers :: "chunk_packing \<Rightarrow> int \<Rightarrow> int \<Rightarrow> ('c, 's) Dimension \<Rightarrow> 's IPlayer list" where
  "GetChunkPlayers cp x z dimension = index_slices (chunkPlayers dimension) (GetChunkIndex cp x z)"

definition AddChunkPlayer :: "chunk_packing \<Rightarrow> int \<Rightarrow> int \<Rightarrow> 's IPlayer \<Rightarrow> ('c, 's) Dimension \<Rightarrow> ('c, 's) Dimension" where
  "AddChunkPlayer cp x z player dimension =
     dimension\<lparr>chunkPlayers :=
       assign (chunkPlayers dimension) (GetChunkIndex cp x z)
         (index_slices (chunkPlayers dimension) (GetChunkIndex cp x z) @ [player])\<rparr>"

text \<open>
  \<^verbatim>\<open>UpdateBlocks\<close>. The inner loop adds one packet per block to the single batch that is
  created before the outer loop. The outer loop overwrites \<^verbatim>\<open>players\<close> with the players
  of the chunk it visits. The sending loop stands after the outer loop, so that it runs
  once, with the players of the chunk visited last and the batch of all chunks. No field
  of the dimension is assigned: the dimension is returned as it was.
\<close>

definition block_packet :: "IBlock \<Rightarrow> UpdateBlockPacket" where
  "block_packet block = \<lparr>BlockId = uint32 (GetId block), BlockMetadata = uint32 (GetData block), Flags = 0\<rparr>"

definition add_blocks :: "IBlock list \<Rightarrow> MinecraftPacketBatch \<Rightarrow> MinecraftPacketBatch" where
  "add_blocks blocks batch = fold (\<lambda>block b. AddPacket b (block_packet block)) blocks batch"

definition visit_chunk ::
  "chunk_packing \<Rightarrow> ('c, 's) Dimension \<Rightarrow> int \<times> IBlock list \<Rightarrow>
   's IPlayer list \<times> MinecraftPacketBatch \<Rightarrow> 's IPlayer list \<times> MinecraftPacketBatch" where
  "visit_chunk cp dimension entry st =
     (case entry of (i, blocks) \<Rightarrow>
        (case GetChunkCoordinates cp i of (x, z) \<Rightarrow>
           (GetChunkPlayers cp x z dimension, add_blocks blocks (snd st))))"

definition UpdateBlocks ::
  "chunk_packing \<Rightarrow> ('c, 's) Dimension \<Rightarrow> ('c, 's) Dimension \<times> 's adapter_call list" where
  "UpdateBlocks cp dimension =
     (case fold (visit_chunk cp dimension) (updatedBlocks dimension) ([], NewMinecraftPacketBatch) of
        (players, batch) \<Rightarrow> (dimension, map (\<lambda>p. SendBatch batch (GetSession p)) players))"

definition TickDimension :: "('c, 's) Dimension \<Rightarrow> ('c, 's) Dimension" where
  "TickDimension dimension = dimension"

text \<open>
  A packing used to run the functions on concrete chunks: the index of \<open>(x, z)\<close> is
  \<open>x * 2 ^ 32 + z\<close>, which is reversible for \<open>0 \<le> z < 2 ^ 32\<close>.
\<close>

definition example_packing :: chunk_packing where
  "example_packing =
     \<lparr>GetChunkIndex = (\<lambda>x z. x * 4294967296 + z),
      GetChunkCoordinates = (\<lambda>i. (i div 4294967296, i mod 4294967296))\<rparr>"

definition stone :: IBlock where
  "stone = \<lparr>GetId = 1, GetData = 0\<rparr>"

definition planks :: IBlock where
  "planks = \<lparr>GetId = 5, GetData = 2\<rparr>"

definition two_chunks :: "(int, IBlock list) gomap \<Rightarrow> (unit, string) Dimension" where
  "two_chunks pending =
     \<lparr>name = ''overworld'', dimensionId = 0, chunks = [(0, ()), (4294967296, ())],
      chunkPlayers = [(0, [\<lparr>GetSession = ''A''\<rparr>, \<lparr>GetSession = ''B''\<rparr>]),
                      (4294967296, [\<lparr>GetSession = ''C''\<rparr>])],
      updatedBlocks = pending\<rparr>"

section \<open>The server\<close>

text \<open>
  The server keeps references to managers of other packages. The model holds the part of
  their state that the functions below read or write: the sessions of the session
  manager (\<^verbatim>\<open>GetSessions\<close>, a map from name to session), the levels and the default level
  of the level manager, the plugins of the plugin manager, the cached result of the query
  manager, and \<^verbatim>\<open>PongData\<close> and \<^verbatim>\<open>ServerId\<close> of the RakLib manager behind the network
  adapter. The console reader and the command, pack and permission managers are not read
  by any function modelled here and are left out.
\<close>

type_synonym byte = "8 word"

record GoMineConfig =
  DebugMode :: bool
  UseEncryption :: bool
  AllowQuery :: bool
  AllowPluginQuery :: bool
  ServerName :: string
  ServerMotd :: string
  ServerIp :: string
  ServerPort :: "16 word"
  MaximumPlayers :: "64 word"

text \<open>\<^verbatim>\<open>query.Result\<close>, with the fields that \<^verbatim>\<open>GenerateQueryResult\<close> assigns.\<close>

record Result =
  MOTD :: string
  ListPlugins :: bool
  PluginNames :: "string list"
  PlayerNames :: "string list"
  GameMode :: string
  Version :: string
  ServerEngine :: string
  WorldName :: string
  OnlinePlayers :: int
  MaximumPlayersQ :: int
  Whitelist :: string
  Port :: "16 word"
  Address :: string

record PrivateKey =
  X :: int
  Y :: int
  D :: int

record Plugin =
  pluginName :: string
  pluginVersion :: string

text \<open>
  A player, by its name and the dimension it is in (\<open>None\<close> for the nil pointer), and a
  session, by the RakNet session it is bound to, its display name, its player and what
  has been sent to its client, oldest first.
\<close>

record Player =
  playerName :: string
  PlayerDimension :: "string option"

datatype ListType = ListTypeAdd | ListTypeRemove

datatype outbound =
    PlayerList ListType "(string \<times> Player) list"
  | Message "string list"

record 'h MinecraftSession =
  rakNetSession :: 'h
  displayName :: string
  player :: Player
  sent :: "outbound list"

record ('c, 's) Level =
  levelName :: string
  dimensions :: "(string, ('c, 's) Dimension) gomap"

record ('c, 's) Manager =
  levels :: "(string, ('c, 's) Level) gomap"
  defaultLevel :: "('c, 's) Level"

record ('h, 'c) Server =
  isRunning :: bool
  tick :: "64 word"
  privateKey :: "PrivateKey option"
  token :: "byte list"
  serverPath :: string
  config :: GoMineConfig
  levelManager :: "('c, string) Manager"
  sessionManager :: "(string, 'h MinecraftSession) gomap"
  PongData :: string
  ServerId :: int
  plugins :: "(string, Plugin) gomap"
  queryResult :: Result

text \<open>
  What the server calls outside itself and does not keep: the package-level logger
  \<^verbatim>\<open>text.DefaultLogger\<close> (the method and its operands), the teardown of a departed player,
  and the query manager's handling of a query packet. Functions that make such calls
  return them in the order they are made.
\<close>

datatype 'h operand = Str string | Ptr 'h | Nil

datatype 'h outside_call =
    Logger string "'h operand list"
  | DespawnFromAll Player
  | Close Player
  | HandleQuery "byte list" string

datatype panic = NilPointerDereference | SliceBoundsOutOfRange

datatype start_error = AlreadyStarted | TransportError string

text \<open>
  Constants and results of packages outside the sources at hand. Every function that
  needs one takes the record as its first argument.
\<close>

record ('h, 'c) outside =
  LatestProtocol :: int
  LatestGameVersion :: string
  LatestGameVersionNetwork :: string
  Yellow :: string
  Header :: "byte list"
  GenerateKey :: "string + PrivateKey"
  IsOnCurve :: "int \<Rightarrow> int \<Rightarrow> bool"
  rand_Read :: "byte list"
  worlds_NewManager :: "('c, string) Manager"
  query_NewManager :: Result
  RakLibServerId :: int
  RakLibStart :: "string \<Rightarrow> int \<Rightarrow> string option"
  LoadPlugins :: "(string, Plugin) gomap"
  session_Tick :: "'h MinecraftSession \<Rightarrow> 'h MinecraftSession"

definition GoMineName :: string where
  "GoMineName = ''GoMine''"

definition GoMineVersion :: string where
  "GoMineVersion = ''0.0.1''"

subsection \<open>Decimal output of \<^verbatim>\<open>fmt.Sprint\<close>\<close>

definition digit_char :: "nat \<Rightarrow> char" where
  "digit_char d = ''0123456789'' ! d"

fun decimal_nat :: "nat \<Rightarrow> string" where
  "decimal_nat n = (if n < 10 then [digit_char n] else decimal_nat (n div 10) @ [digit_char (n mod 10)])"

declare decimal_nat.simps [simp del]

definition decimal :: "int \<Rightarrow> string" where
  "decimal i = (if i < 0 then CHR ''-'' # decimal_nat (nat (- i)) else decimal_nat (nat i))"

subsection \<open>The session manager\<close>

definition GetSessionCount :: "(string, 'h MinecraftSession) gomap \<Rightarrow> nat" where
  "GetSessionCount sessions = length sessions"

text \<open>
  Modelled from the spec: \<^verbatim>\<open>SessionManager.GetSessionByRakNetSession\<close>, which is outside
  the sources at hand. The spec: "lookup(transportHandle) -> Session | absent", with at
  most one live session per transport handle. The result \<open>None\<close> stands for the pair of
  a nil session and \<open>ok = false\<close>.
\<close>

definition GetSessionByRakNetSession ::
  "(string, 'h MinecraftSession) gomap \<Rightarrow> 'h \<Rightarrow> 'h MinecraftSession option" where
  "GetSessionByRakNetSession sessions s =
     map_option snd (find (\<lambda>(n, session). rakNetSession session = s) sessions)"

text \<open>
  Modelled from the spec: \<^verbatim>\<open>SessionManager.RemoveMinecraftSession\<close>, which is outside the
  sources at hand. The spec: the disconnect handler "looks up the bound session (no-op,
  not fatal, if none found -- a session may already have been removed), removes it from
  the manager". Removing the nil session leaves the manager as it is; removing a session
  removes the entries that hold it.
\<close>

definition RemoveMinecraftSession ::
  "(string, 'h MinecraftSession) gomap \<Rightarrow> 'h MinecraftSession option \<Rightarrow>
   (string, 'h MinecraftSession) gomap" where
  "RemoveMinecraftSession sessions found =
     (case found of
        None \<Rightarrow> sessions
      | Some session \<Rightarrow> filter (\<lambda>(n, session'). session' \<noteq> session) sessions)"

definition SendPlayerList :: "ListType \<Rightarrow> (string \<times> Player) list \<Rightarrow> 'h MinecraftSession \<Rightarrow> 'h MinecraftSession" where
  "SendPlayerList listType entries session = session\<lparr>sent := sent session @ [PlayerList listType entries]\<rparr>"

definition SendMessage :: "string list \<Rightarrow> 'h MinecraftSession \<Rightarrow> 'h MinecraftSession" where
  "SendMessage message session = session\<lparr>sent := sent session @ [Message message]\<rparr>"

definition each_session ::
  "('h MinecraftSession \<Rightarrow> 'h MinecraftSession) \<Rightarrow> ('h, 'c) Server \<Rightarrow> ('h, 'c) Server" where
  "each_session f server =
     server\<lparr>sessionManager := map (\<lambda>(n, session). (n, f session)) (sessionManager server)\<rparr>"

subsection \<open>Getters\<close>

definition GetMinecraftVersion :: "('h, 'c) outside \<Rightarrow> string" where
  "GetMinecraftVersion ex = LatestGameVersion ex"

definition GetMinecraftNetworkVersion :: "('h, 'c) outside \<Rightarrow> string" where
  "GetMinecraftNetworkVersion ex = LatestGameVersionNetwork ex"

definition GetEngineName :: string where
  "GetEngineName = GoMineName"

definition GetMotd :: "('h, 'c) Server \<Rightarrow> string" where
  "GetMotd server = ServerMotd (config server)"

definition GetCurrentTick :: "('h, 'c) Server \<Rightarrow> 64 word" where
  "GetCurrentTick server = tick server"

definition IsRunning :: "('h, 'c) Server \<Rightarrow> bool" where
  "IsRunning server = isRunning server"

subsection \<open>The cached announce data\<close>

text \<open>
  \<^verbatim>\<open>GeneratePongData\<close>: \<^verbatim>\<open>fmt.Sprint\<close> puts a space between two operands only when neither
  is a string, which is never the case here.
\<close>

definition GeneratePongData :: "('h, 'c) outside \<Rightarrow> ('h, 'c) Server \<Rightarrow> string" where
  "GeneratePongData ex server =
     ''MCPE;'' @ GetMotd server @ '';'' @ decimal (LatestProtocol ex) @ '';'' @
     GetMinecraftNetworkVersion ex @ '';'' @
     decimal_nat (GetSessionCount (sessionManager server)) @ '';'' @
     decimal_nat (unat (MaximumPlayers (config server))) @ '';'' @
     decimal (ServerId server) @ '';'' @ GetEngineName @ '';Creative;''"

definition GenerateQueryResult :: "('h, 'c) outside \<Rightarrow> ('h, 'c) Server \<Rightarrow> Result" where
  "GenerateQueryResult ex server =
     (let plugs = map (\<lambda>(n, plug). pluginName plug @ '' v'' @ pluginVersion plug) (plugins server);
          ps = map fst (sessionManager server)
      in \<lparr>MOTD = GetMotd server,
          ListPlugins = AllowPluginQuery (config server),
          PluginNames = plugs,
          PlayerNames = ps,
          GameMode = ''SMP'',
          Version = GetMinecraftVersion ex,
          ServerEngine = GetEngineName,
          WorldName = levelName (defaultLevel (levelManager server)),
          OnlinePlayers = int (GetSessionCount (sessionManager server)),
          MaximumPlayersQ = sint (MaximumPlayers (config server)),
          Whitelist = ''off'',
          Port = ServerPort (config server),
          Address = ServerIp (config server)\<rparr>)"

subsection \<open>\<^verbatim>\<open>NewServer\<close>, \<^verbatim>\<open>Start\<close>, \<^verbatim>\<open>Shutdown\<close>\<close>

text \<open>
  \<^verbatim>\<open>NewServer\<close>. \<^verbatim>\<open>ecdsa.GenerateKey\<close> returns a nil key together with an error; the error
  is passed to the logger, and the next statement reads \<^verbatim>\<open>s.privateKey.X\<close>, which panics
  on the nil key. A key that is not on the curve is reported to the logger and kept.
  The token is a slice of 128 bytes that \<^verbatim>\<open>rand.Read\<close> fills.
\<close>

definition NewServer ::
  "('h, 'c) outside \<Rightarrow> string \<Rightarrow> GoMineConfig \<Rightarrow> 'h outside_call list \<times> (panic + ('h, 'c) Server)" where
  "NewServer ex path cfg =
     (let s0 = \<lparr>isRunning = False, tick = 0, privateKey = None, token = [], serverPath = path,
                config = cfg, levelManager = worlds_NewManager ex, sessionManager = [],
                PongData = [], ServerId = RakLibServerId ex, plugins = [],
                queryResult = query_NewManager ex\<rparr>;
          s = s0\<lparr>PongData := GeneratePongData ex s0\<rparr>
      in if UseEncryption cfg then
           (case GenerateKey ex of
              Inl err \<Rightarrow> ([Logger ''LogError'' [Str err]], Inl NilPointerDereference)
            | Inr key \<Rightarrow>
                ([Logger ''LogError'' [Nil]] @
                 (if \<not> IsOnCurve ex (X key) (Y key)
                  then [Logger ''Error'' [Str ''Invalid private key generated'']] else []),
                 Inr (s\<lparr>privateKey := Some key,
                        token := take 128 (rand_Read ex @ replicate 128 0)\<rparr>)))
         else ([], Inr s))"

definition OverworldId :: int where
  "OverworldId = 0"

text \<open>
  \<^verbatim>\<open>Start\<close>. The default level becomes a new level "world" whose dimension "overworld"
  has no chunks yet; what \<^verbatim>\<open>GetLevels\<close> returns is left as it was, the level manager
  being outside the sources at hand. Registering commands and loading packs act on
  managers that the model leaves out. The error of the RakLib manager's \<^verbatim>\<open>Start\<close> is
  returned after \<^verbatim>\<open>isRunning\<close> has been set.
\<close>

definition Start ::
  "('h, 'c) outside \<Rightarrow> ('h, 'c) Server \<Rightarrow> start_error option \<times> ('h, 'c) Server \<times> 'h outside_call list" where
  "Start ex server =
     (if isRunning server then (Some AlreadyStarted, server, [])
      else
        (let world = \<lparr>levelName = ''world'',
                      dimensions = [(''overworld'', NewDimension ''overworld'' OverworldId [])]\<rparr>;
             s1 = server\<lparr>levelManager := (levelManager server)\<lparr>defaultLevel := world\<rparr>\<rparr>;
             s2 = s1\<lparr>plugins := LoadPlugins ex\<rparr>;
             s3 = s2\<lparr>isRunning := True\<rparr>
         in (map_option TransportError
               (RakLibStart ex (ServerIp (config server)) (uint (ServerPort (config server)))),
             s3,
             [Logger ''Info'' [Str (''GoMine '' @ GoMineVersion @ '' is now starting...''),
                               Str (''('' @ serverPath server @ '')'')]])))"

definition Shutdown :: "('h, 'c) Server \<Rightarrow> ('h, 'c) Server \<times> 'h outside_call list" where
  "Shutdown server =
     (if \<not> isRunning server then (server, [])
      else (server\<lparr>isRunning := False\<rparr>,
            [Logger ''Info'' [Str ''Server is shutting down.''],
             Logger ''Notice'' [Str ''Server stopped.''],
             Logger ''Wait'' []]))"

subsection \<open>\<^verbatim>\<open>Tick\<close>\<close>

text \<open>
  \<^verbatim>\<open>Tick\<close>. Go's \<^verbatim>\<open>%\<close> on \<^verbatim>\<open>int64\<close> truncates towards zero, as \<open>smod\<close> does on the signed
  value of the counter. \<^verbatim>\<open>session.Tick()\<close> is outside the sources at hand. The loop over
  the levels has an empty body: the call of the level's tick is commented out.
  \<^verbatim>\<open>server.tick++\<close> wraps around at the end of the \<^verbatim>\<open>int64\<close> range.
\<close>

definition recompute :: "('h, 'c) outside \<Rightarrow> ('h, 'c) Server \<Rightarrow> ('h, 'c) Server" where
  "recompute ex server =
     (let s1 = server\<lparr>queryResult := GenerateQueryResult ex server\<rparr>
      in s1\<lparr>PongData := GeneratePongData ex s1\<rparr>)"

definition Tick :: "('h, 'c) outside \<Rightarrow> ('h, 'c) Server \<Rightarrow> ('h, 'c) Server" where
  "Tick ex server =
     (if \<not> isRunning server then server
      else
        (let s1 = (if sint (tick server) smod 20 = 0 then recompute ex server else server);
             s2 = each_session (session_Tick ex) s1;
             s3 = fold (\<lambda>level s. s) (levels (levelManager s2)) s2
         in s3\<lparr>tick := tick s3 + 1\<rparr>))"

subsection \<open>\<^verbatim>\<open>HandleRaw\<close>\<close>

text \<open>
  A Go slice is a window on a backing array: \<open>elems\<close> are its \<^verbatim>\<open>len\<close> elements and
  \<open>spare\<close> the elements of the array behind them, up to the capacity. For a slice the
  upper bound of a slice expression \<^verbatim>\<open>s[low:high]\<close> is the capacity, not the length:
  \<^verbatim>\<open>packet[0:2]\<close> panics exactly when the capacity is below 2, and reads into the spare
  elements when the length is below 2 and the capacity is not.
\<close>

record goslice =
  elems :: "byte list"
  spare :: "byte list"

definition cap :: "goslice \<Rightarrow> nat" where
  "cap s = length (elems s) + length (spare s)"

definition slice_to :: "goslice \<Rightarrow> nat \<Rightarrow> panic + byte list" where
  "slice_to s high = (if high \<le> cap s then Inr (take high (elems s @ spare s)) else Inl SliceBoundsOutOfRange)"

definition hex_digit :: "nat \<Rightarrow> char" where
  "hex_digit d = ''0123456789abcdef'' ! d"

definition EncodeToString :: "byte list \<Rightarrow> string" where
  "EncodeToString bs = concat (map (\<lambda>b. [hex_digit (unat b div 16), hex_digit (unat b mod 16)]) bs)"

text \<open>
  \<^verbatim>\<open>HandleRaw\<close>. Building the query from the packet, decoding it and handing it to the
  query manager are calls outside the sources at hand, returned as one call.
\<close>

definition HandleRaw ::
  "('h, 'c) outside \<Rightarrow> goslice \<Rightarrow> string \<Rightarrow> ('h, 'c) Server \<Rightarrow>
   panic + (('h, 'c) Server \<times> 'h outside_call list)" where
  "HandleRaw ex packet addr server =
     (case slice_to packet 2 of
        Inl p \<Rightarrow> Inl p
      | Inr prefix \<Rightarrow>
          if prefix = Header ex then
            (if \<not> AllowQuery (config server) then Inr (server, [])
             else Inr (server, [HandleQuery (elems packet) addr]))
          else Inr (server, [Logger ''Debug'' [Str ''Unhandled raw packet:'', Str (EncodeToString (elems packet))]]))"

subsection \<open>\<^verbatim>\<open>HandleDisconnect\<close>\<close>

definition BroadcastMessage ::
  "string list \<Rightarrow> ('h, 'c) Server \<Rightarrow> ('h, 'c) Server \<times> 'h outside_call list" where
  "BroadcastMessage message server =
     (each_session (SendMessage message) server, [Logger ''LogChat'' (map Str message)])"

text \<open>
  \<^verbatim>\<open>HandleDisconnect\<close>. The session found is removed from the manager before \<^verbatim>\<open>ok\<close> is
  tested, so that the manager is asked to remove the nil session when none is bound.
  The player list is sent to the sessions that remain, each with its own player as the
  entry. Despawning and closing act on the departed player.
\<close>

definition HandleDisconnect ::
  "('h, 'c) outside \<Rightarrow> 'h \<Rightarrow> ('h, 'c) Server \<Rightarrow> ('h, 'c) Server \<times> 'h outside_call list" where
  "HandleDisconnect ex s server =
     (let found = GetSessionByRakNetSession (sessionManager server) s;
          s1 = server\<lparr>sessionManager := RemoveMinecraftSession (sessionManager server) found\<rparr>;
          log1 = [Logger ''Debug'' [Ptr s, Str ''disconnected!'']]
      in case found of
           None \<Rightarrow> (s1, log1)
         | Some session \<Rightarrow>
             if PlayerDimension (player session) \<noteq> None then
               (let s2 = each_session
                           (\<lambda>online. SendPlayerList ListTypeRemove
                              [(playerName (player online), player online)] online) s1;
                    (s3, log3) = BroadcastMessage
                                   [Yellow ex @ displayName session, ''has left the server''] s2
                in (s3, log1 @ [DespawnFromAll (player session), Close (player session)] @ log3))
             else (s1, log1))"

definition announce :: "('h, 'c) Server \<Rightarrow> Result \<times> string" where
  "announce server = (queryResult server, PongData server)"

section \<open>Concrete inputs\<close>

text \<open>
  An environment and a configuration to run the functions on. The curve test is the
  equation of P-384, the curve that \<^verbatim>\<open>NewServer\<close> chooses; the point \<open>(1, 1)\<close> is not on
  it. The query manager starts with the zero value of \<^verbatim>\<open>query.Result\<close>. Handles of
  RakNet sessions are numbers.
\<close>

definition P384_p :: int where
  "P384_p = 39402006196394479212279040100143613805079739270465446667948293404245721771496870329047266088258938001861606973112319"

definition P384_b :: int where
  "P384_b = 27580193559959705877849011840389048093056905856361568521428707301988689241309860865136260764883745107765439761230575"

definition P384_IsOnCurve :: "int \<Rightarrow> int \<Rightarrow> bool" where
  "P384_IsOnCurve x y =
     (0 \<le> x \<and> x < P384_p \<and> 0 \<le> y \<and> y < P384_p \<and>
      (y * y) mod P384_p = (x * x * x - 3 * x + P384_b) mod P384_p)"

definition off_curve_key :: PrivateKey where
  "off_curve_key = \<lparr>X = 1, Y = 1, D = 1\<rparr>"

definition zero_Result :: Result where
  "zero_Result =
     \<lparr>MOTD = [], ListPlugins = False, PluginNames = [], PlayerNames = [], GameMode = [],
      Version = [], ServerEngine = [], WorldName = [], OnlinePlayers = 0, MaximumPlayersQ = 0,
      Whitelist = [], Port = 0, Address = []\<rparr>"

definition example_outside :: "string + PrivateKey \<Rightarrow> (nat, unit) outside" where
  "example_outside generated =
     \<lparr>LatestProtocol = 201,
      LatestGameVersion = ''v1.2.10.1'',
      LatestGameVersionNetwork = ''1.2.10.1'',
      Yellow = [CHR 0xC2, CHR 0xA7, CHR ''e''],
      Header = [0xFE, 0xFD],
      GenerateKey = generated,
      IsOnCurve = P384_IsOnCurve,
      rand_Read = replicate 128 0x2A,
      worlds_NewManager = \<lparr>levels = [], defaultLevel = \<lparr>levelName = [], dimensions = []\<rparr>\<rparr>,
      query_NewManager = zero_Result,
      RakLibServerId = 7,
      RakLibStart = (\<lambda>ip port. None),
      LoadPlugins = [],
      session_Tick = (\<lambda>session. session)\<rparr>"

definition example_config :: GoMineConfig where
  "example_config =
     \<lparr>DebugMode = False, UseEncryption = False, AllowQuery = True, AllowPluginQuery = True,
      ServerName = ''GoMine Server'', ServerMotd = ''GoMine'', ServerIp = ''0.0.0.0'',
      ServerPort = 19132, MaximumPlayers = 20\<rparr>"

definition example_session :: "nat \<Rightarrow> string \<Rightarrow> nat MinecraftSession" where
  "example_session h nm =
     \<lparr>rakNetSession = h, displayName = nm,
      player = \<lparr>playerName = nm, PlayerDimension = Some ''overworld''\<rparr>, sent = []\<rparr>"

text \<open>
  A running server with the sessions A, B and C, a counter to choose, and one level
  whose dimension holds the two chunks above with the pending blocks to choose.
\<close>

definition example_server :: "64 word \<Rightarrow> (int, IBlock list) gomap \<Rightarrow> (nat, unit) Server" where
  "example_server counter pending =
     \<lparr>isRunning = True, tick = counter, privateKey = None,
      token = [], serverPath = ''/srv/gomine/'', config = example_config,
      levelManager =
        \<lparr>levels = [(''world'', \<lparr>levelName = ''world'',
                                  dimensions = [(''overworld'', two_chunks pending)]\<rparr>)],
         defaultLevel = \<lparr>levelName = ''world'',
                         dimensions = [(''overworld'', two_chunks pending)]\<rparr>\<rparr>,
      sessionManager = [(''A'', example_session 1 ''A''), (''B'', example_session 2 ''B''),
                        (''C'', example_session 3 ''C'')],
      PongData = ''MCPE;GoMine;201;1.2.10.1;0;20;7;GoMine;Creative;'',
      ServerId = 7, plugins = [], queryResult = zero_Result\<rparr>"

definition fresh_server :: "('h, 'c) outside \<Rightarrow> string \<Rightarrow> GoMineConfig \<Rightarrow> ('h, 'c) Server option" where
  "fresh_server ex path cfg =
     (case snd (NewServer ex path cfg) of
        Inl p \<Rightarrow> None
      | Inr s \<Rightarrow> Some (fst (snd (Start ex s))))"

definition example_fresh :: "(nat, unit) Server" where
  "example_fresh =
     \<lparr>isRunning = True, tick = 0, privateKey = None, token = [], serverPath = ''/srv/gomine/'',
      config = example_config,
      levelManager =
        \<lparr>levels = [],
         defaultLevel = \<lparr>levelName = ''world'',
                         dimensions = [(''overworld'', NewDimension ''overworld'' OverworldId [])]\<rparr>\<rparr>,
      sessionManager = [],
      PongData = ''MCPE;GoMine;201;1.2.10.1;0;20;7;GoMine;Creative;'',
      ServerId = 7, plugins = [], queryResult = zero_Result\<rparr>"

definition encrypting_config :: GoMineConfig where
  "encrypting_config = example_config\<lparr>UseEncryption := True\<rparr>"

section \<open>The entity-spawn packet\<close>

text \<open>
  \<^verbatim>\<open>AddEntityPacket\<close> embeds \<^verbatim>\<open>*packets.Packet\<close>, the binary cursor: a byte buffer and the
  offset of the next read. The struct \<^verbatim>\<open>Packet\<close> and its \<^verbatim>\<open>Put\<close> and \<^verbatim>\<open>Get\<close> methods are
  outside the sources at hand. A \<^verbatim>\<open>Put\<close> method is modelled by the bytes it appends to
  the buffer, a \<^verbatim>\<open>Get\<close> method by a parser of the unread bytes that returns the value and
  the bytes left, or \<open>None\<close> when the read fails. \<^verbatim>\<open>Encode\<close> and \<^verbatim>\<open>Decode\<close> take the methods
  as their first argument.

  Vectors and rotations hold floating-point numbers; their types stay abstract, as do
  the types of an attribute and of an entity data value. The two maps are Go maps.
\<close>

record ('v, 'r, 'av, 'ev) cursor =
  PutUniqueId :: "64 word \<Rightarrow> byte list"
  GetUniqueId :: "byte list \<Rightarrow> (64 word \<times> byte list) option"
  PutRuntimeId :: "64 word \<Rightarrow> byte list"
  GetRuntimeId :: "byte list \<Rightarrow> (64 word \<times> byte list) option"
  PutUnsignedVarInt :: "32 word \<Rightarrow> byte list"
  GetUnsignedVarInt :: "byte list \<Rightarrow> (32 word \<times> byte list) option"
  PutVector :: "'v \<Rightarrow> byte list"
  GetVector :: "byte list \<Rightarrow> ('v \<times> byte list) option"
  PutRotation :: "'r \<Rightarrow> bool \<Rightarrow> byte list"
  GetRotation :: "bool \<Rightarrow> byte list \<Rightarrow> ('r \<times> byte list) option"
  PutAttributeMap :: "(string, 'av) gomap \<Rightarrow> byte list"
  GetAttributeMap :: "byte list \<Rightarrow> ((string, 'av) gomap \<times> byte list) option"
  PutEntityData :: "(32 word, 'ev list) gomap \<Rightarrow> byte list"
  GetEntityData :: "byte list \<Rightarrow> ((32 word, 'ev list) gomap \<times> byte list) option"

record ('v, 'r, 'av, 'ev) AddEntityPacket =
  Buffer :: "byte list"
  Offset :: nat
  UniqueId :: "64 word"
  RuntimeId :: "64 word"
  EntityType :: "32 word"
  Position :: 'v
  Motion :: 'v
  Rotation :: 'r
  Attributes :: "(string, 'av) gomap"
  EntityData :: "(32 word, 'ev list) gomap"

text \<open>
  \<^verbatim>\<open>NewAddEntityPacket\<close>: an empty cursor and zero fields; the zero vector and the zero
  rotation are arguments. The nil map of \<^verbatim>\<open>EntityData\<close> has no entries.
\<close>

definition NewAddEntityPacket :: "'v \<Rightarrow> 'r \<Rightarrow> ('v, 'r, 'av, 'ev) AddEntityPacket" where
  "NewAddEntityPacket zero_vector zero_rotation =
     \<lparr>Buffer = [], Offset = 0, UniqueId = 0, RuntimeId = 0, EntityType = 0,
      Position = zero_vector, Motion = zero_vector, Rotation = zero_rotation,
      Attributes = [], EntityData = []\<rparr>"

definition put :: "byte list \<Rightarrow> ('v, 'r, 'av, 'ev) AddEntityPacket \<Rightarrow> ('v, 'r, 'av, 'ev) AddEntityPacket" where
  "put bytes pk = pk\<lparr>Buffer := Buffer pk @ bytes\<rparr>"

definition get ::
  "(byte list \<Rightarrow> ('a \<times> byte list) option) \<Rightarrow> ('v, 'r, 'av, 'ev) AddEntityPacket \<Rightarrow>
   ('a \<times> ('v, 'r, 'av, 'ev) AddEntityPacket) option" where
  "get parser pk =
     (case parser (drop (Offset pk) (Buffer pk)) of
        None \<Rightarrow> None
      | Some (v, rest) \<Rightarrow> Some (v, pk\<lparr>Offset := length (Buffer pk) - length rest\<rparr>))"

definition Encode ::
  "('v, 'r, 'av, 'ev) cursor \<Rightarrow> ('v, 'r, 'av, 'ev) AddEntityPacket \<Rightarrow> ('v, 'r, 'av, 'ev) AddEntityPacket" where
  "Encode c pk =
     (let pk1 = put (PutUniqueId c (UniqueId pk)) pk;
          pk2 = put (PutRuntimeId c (RuntimeId pk1)) pk1;
          pk3 = put (PutUnsignedVarInt c (EntityType pk2)) pk2;
          pk4 = put (PutVector c (Position pk3)) pk3;
          pk5 = put (PutVector c (Motion pk4)) pk4;
          pk6 = put (PutRotation c (Rotation pk5) False) pk5;
          pk7 = put (PutAttributeMap c (Attributes pk6)) pk6;
          pk8 = put (PutEntityData c (EntityData pk7)) pk7
      in put (PutUnsignedVarInt c 0) pk8)"

definition Decode ::
  "('v, 'r, 'av, 'ev) cursor \<Rightarrow> ('v, 'r, 'av, 'ev) AddEntityPacket \<Rightarrow>
   ('v, 'r, 'av, 'ev) AddEntityPacket option" where
  "Decode c pk =
     (case get (GetUniqueId c) pk of None \<Rightarrow> None | Some (v1, pk1) \<Rightarrow>
      case get (GetRuntimeId c) (pk1\<lparr>UniqueId := v1\<rparr>) of None \<Rightarrow> None | Some (v2, pk2) \<Rightarrow>
      case get (GetUnsignedVarInt c) (pk2\<lparr>RuntimeId := v2\<rparr>) of None \<Rightarrow> None | Some (v3, pk3) \<Rightarrow>
      case get (GetVector c) (pk3\<lparr>EntityType := v3\<rparr>) of None \<Rightarrow> None | Some (v4, pk4) \<Rightarrow>
      case get (GetVector c) (pk4\<lparr>Position := v4\<rparr>) of None \<Rightarrow> None | Some (v5, pk5) \<Rightarrow>
      case get (GetRotation c False) (pk5\<lparr>Motion := v5\<rparr>) of None \<Rightarrow> None | Some (v6, pk6) \<Rightarrow>
      case get (GetAttributeMap c) (pk6\<lparr>Rotation := v6\<rparr>) of None \<Rightarrow> None | Some (v7, pk7) \<Rightarrow>
      case get (GetEntityData c) (pk7\<lparr>Attributes := v7\<rparr>) of None \<Rightarrow> None | Some (v8, pk8) \<Rightarrow>
      Some (pk8\<lparr>EntityData := v8\<rparr>))"

text \<open>
  The round-trip law of the binary cursor, for one pair of methods: reading after
  writing returns the value written and leaves the bytes that follow. For a map the
  value read is the same map, whatever the order of its entries.
\<close>

definition round_trips :: "('a \<Rightarrow> byte list) \<Rightarrow> (byte list \<Rightarrow> ('a \<times> byte list) option) \<Rightarrow> bool" where
  "round_trips w r = (\<forall>v rest. r (w v @ rest) = Some (v, rest))"

definition is_map :: "('k, 'v) gomap \<Rightarrow> bool" where
  "is_map m = distinct (map fst m)"

definition same_map :: "('k, 'v) gomap \<Rightarrow> ('k, 'v) gomap \<Rightarrow> bool" where
  "same_map m m' = (is_map m \<and> is_map m' \<and> set m = set m')"

definition round_trips_map ::
  "(('k, 'v) gomap \<Rightarrow> byte list) \<Rightarrow> (byte list \<Rightarrow> (('k, 'v) gomap \<times> byte list) option) \<Rightarrow> bool" where
  "round_trips_map w r =
     (\<forall>m rest. is_map m \<longrightarrow> (\<exists>m'. r (w m @ rest) = Some (m', rest) \<and> same_map m' m))"

definition lawful :: "('v, 'r, 'av, 'ev) cursor \<Rightarrow> bool" where
  "lawful c =
     (round_trips (PutUniqueId c) (GetUniqueId c) \<and>
      round_trips (PutRuntimeId c) (GetRuntimeId c) \<and>
      round_trips (PutUnsignedVarInt c) (GetUnsignedVarInt c) \<and>
      round_trips (PutVector c) (GetVector c) \<and>
      round_trips (\<lambda>v. PutRotation c v False) (GetRotation c False) \<and>
      round_trips_map (PutAttributeMap c) (GetAttributeMap c) \<and>
      round_trips_map (PutEntityData c) (GetEntityData c))"

text \<open>
  Two packets hold the same field values when their scalar fields are equal and their
  maps are the same maps.
\<close>

definition same_fields ::
  "('v, 'r, 'av, 'ev) AddEntityPacket \<Rightarrow> ('v, 'r, 'av, 'ev) AddEntityPacket \<Rightarrow> bool" where
  "same_fields p q =
     (UniqueId p = UniqueId q \<and> RuntimeId p = RuntimeId q \<and> EntityType p = EntityType q \<and>
      Position p = Position q \<and> Motion p = Motion q \<and> Rotation p = Rotation q \<and>
      same_map (Attributes p) (Attributes q) \<and> same_map (EntityData p) (EntityData q))"

section \<open>A binary cursor after the spec\<close>

text \<open>
  Modelled from the spec: the unsigned variable-length integer of the binary cursor,
  whose methods are outside the sources at hand. The spec: "a continuation-bit
  little-endian-group encoding (7 data bits + 1 continuation bit per byte)".
\<close>

fun put_uvarint :: "nat \<Rightarrow> byte list" where
  "put_uvarint n =
     (if n < 128 then [of_nat n] else of_nat (128 + n mod 128) # put_uvarint (n div 128))"

declare put_uvarint.simps [simp del]

fun get_uvarint :: "byte list \<Rightarrow> (nat \<times> byte list) option" where
  "get_uvarint [] = None"
| "get_uvarint (b # bs) =
     (if unat b < 128 then Some (unat b, bs)
      else (case get_uvarint bs of
              None \<Rightarrow> None
            | Some (n, rest) \<Rightarrow> Some (unat b - 128 + 128 * n, rest)))"

text \<open>
  Modelled from the spec: the signed variant, "unsigned and signed (zig-zag) variants
  are distinct primitive operations". Zig-zag maps \<open>0, -1, 1, -2, ...\<close> to
  \<open>0, 1, 2, 3, ...\<close>.
\<close>

definition zigzag :: "int \<Rightarrow> nat" where
  "zigzag i = (if 0 \<le> i then nat (2 * i) else nat (- 2 * i - 1))"

definition unzigzag :: "nat \<Rightarrow> int" where
  "unzigzag n = (if even n then int (n div 2) else - int (n div 2) - 1)"

definition put_varint64 :: "64 word \<Rightarrow> byte list" where
  "put_varint64 w = put_uvarint (zigzag (sint w))"

definition get_varint64 :: "byte list \<Rightarrow> (64 word \<times> byte list) option" where
  "get_varint64 bs = map_option (\<lambda>(n, rest). (word_of_int (unzigzag n), rest)) (get_uvarint bs)"

definition put_uvarint64 :: "64 word \<Rightarrow> byte list" where
  "put_uvarint64 w = put_uvarint (unat w)"

definition get_uvarint64 :: "byte list \<Rightarrow> (64 word \<times> byte list) option" where
  "get_uvarint64 bs = map_option (\<lambda>(n, rest). (of_nat n, rest)) (get_uvarint bs)"

definition put_uvarint32 :: "32 word \<Rightarrow> byte list" where
  "put_uvarint32 w = put_uvarint (unat w)"

definition get_uvarint32 :: "byte list \<Rightarrow> (32 word \<times> byte list) option" where
  "get_uvarint32 bs = map_option (\<lambda>(n, rest). (of_nat n, rest)) (get_uvarint bs)"

text \<open>
  Modelled from the spec: "Strings/byte-sequences are length-prefixed using the unsigned
  variable-length integer primitive", and the same for a sequence of values, each
  written by the method for its type.
\<close>

fun get_n :: "(byte list \<Rightarrow> ('a \<times> byte list) option) \<Rightarrow> nat \<Rightarrow> byte list \<Rightarrow> ('a list \<times> byte list) option" where
  "get_n r 0 bs = Some ([], bs)"
| "get_n r (Suc n) bs =
     (case r bs of
        None \<Rightarrow> None
      | Some (v, rest) \<Rightarrow>
          (case get_n r n rest of
             None \<Rightarrow> None
           | Some (vs, rest') \<Rightarrow> Some (v # vs, rest')))"

definition put_list :: "('a \<Rightarrow> byte list) \<Rightarrow> 'a list \<Rightarrow> byte list" where
  "put_list w vs = put_uvarint (length vs) @ concat (map w vs)"

definition get_list :: "(byte list \<Rightarrow> ('a \<times> byte list) option) \<Rightarrow> byte list \<Rightarrow> ('a list \<times> byte list) option" where
  "get_list r bs = (case get_uvarint bs of None \<Rightarrow> None | Some (n, rest) \<Rightarrow> get_n r n rest)"

definition put_char :: "char \<Rightarrow> byte list" where
  "put_char ch = [of_nat (of_char ch)]"

definition get_char :: "byte list \<Rightarrow> (char \<times> byte list) option" where
  "get_char bs = (case bs of [] \<Rightarrow> None | b # rest \<Rightarrow> Some (char_of (unat b), rest))"

definition put_string :: "string \<Rightarrow> byte list" where
  "put_string = put_list put_char"

definition get_string :: "byte list \<Rightarrow> (string \<times> byte list) option" where
  "get_string = get_list get_char"

text \<open>
  Modelled from the spec: "Vectors are three consecutive floating-point fields in x,y,z
  order". How a floating-point number is written is left to a pair of methods; an
  attribute is a "(min, max, current, default) numeric tuple" under its name.
\<close>

definition put_vector :: "('f \<Rightarrow> byte list) \<Rightarrow> 'f \<times> 'f \<times> 'f \<Rightarrow> byte list" where
  "put_vector w v = (case v of (x, y, z) \<Rightarrow> w x @ w y @ w z)"

definition get_vector ::
  "(byte list \<Rightarrow> ('f \<times> byte list) option) \<Rightarrow> byte list \<Rightarrow> (('f \<times> 'f \<times> 'f) \<times> byte list) option" where
  "get_vector r bs =
     (case r bs of None \<Rightarrow> None | Some (x, bs1) \<Rightarrow>
      case r bs1 of None \<Rightarrow> None | Some (y, bs2) \<Rightarrow>
      case r bs2 of None \<Rightarrow> None | Some (z, bs3) \<Rightarrow> Some ((x, y, z), bs3))"

type_synonym 'f attribute = "'f \<times> 'f \<times> 'f \<times> 'f"

definition put_attribute :: "('f \<Rightarrow> byte list) \<Rightarrow> string \<times> 'f attribute \<Rightarrow> byte list" where
  "put_attribute w e =
     (case e of (nm, mn, mx, cur, dflt) \<Rightarrow> put_string nm @ w mn @ w mx @ w cur @ w dflt)"

definition get_attribute ::
  "(byte list \<Rightarrow> ('f \<times> byte list) option) \<Rightarrow> byte list \<Rightarrow> ((string \<times> 'f attribute) \<times> byte list) option" where
  "get_attribute r bs =
     (case get_string bs of None \<Rightarrow> None | Some (nm, bs0) \<Rightarrow>
      case r bs0 of None \<Rightarrow> None | Some (mn, bs1) \<Rightarrow>
      case r bs1 of None \<Rightarrow> None | Some (mx, bs2) \<Rightarrow>
      case r bs2 of None \<Rightarrow> None | Some (cur, bs3) \<Rightarrow>
      case r bs3 of None \<Rightarrow> None | Some (dflt, bs4) \<Rightarrow> Some ((nm, mn, mx, cur, dflt), bs4))"

definition put_entity_data :: "('ev \<Rightarrow> byte list) \<Rightarrow> 32 word \<times> 'ev list \<Rightarrow> byte list" where
  "put_entity_data w e = (case e of (k, vs) \<Rightarrow> put_uvarint32 k @ put_list w vs)"

definition get_entity_data ::
  "(byte list \<Rightarrow> ('ev \<times> byte list) option) \<Rightarrow> byte list \<Rightarrow> ((32 word \<times> 'ev list) \<times> byte list) option" where
  "get_entity_data r bs =
     (case get_uvarint32 bs of None \<Rightarrow> None | Some (k, bs1) \<Rightarrow>
      case get_list r bs1 of None \<Rightarrow> None | Some (vs, bs2) \<Rightarrow> Some ((k, vs), bs2))"

text \<open>
  Modelled from the spec: the two map methods. The spec: "no use of unstable iteration
  order for the EntityDataMap or AttributeMap; keys must be written in a fixed,
  reproducible order". The entries are written in ascending order of their keys, after
  their number.
\<close>

definition put_map :: "('k::linorder \<times> 'v \<Rightarrow> byte list) \<Rightarrow> ('k, 'v) gomap \<Rightarrow> byte list" where
  "put_map w m = put_list w (sort_key fst m)"

definition get_map ::
  "(byte list \<Rightarrow> (('k \<times> 'v) \<times> byte list) option) \<Rightarrow> byte list \<Rightarrow> (('k, 'v) gomap \<times> byte list) option" where
  "get_map r bs = get_list r bs"

text \<open>
  The cursor built from these methods. The methods for a floating-point number, for a
  rotation and for an entity data value are arguments.
\<close>

definition spec_cursor ::
  "('f \<Rightarrow> byte list) \<Rightarrow> (byte list \<Rightarrow> ('f \<times> byte list) option) \<Rightarrow>
   ('r \<Rightarrow> bool \<Rightarrow> byte list) \<Rightarrow> (bool \<Rightarrow> byte list \<Rightarrow> ('r \<times> byte list) option) \<Rightarrow>
   ('ev \<Rightarrow> byte list) \<Rightarrow> (byte list \<Rightarrow> ('ev \<times> byte list) option) \<Rightarrow>
   ('f \<times> 'f \<times> 'f, 'r, 'f attribute, 'ev) cursor" where
  "spec_cursor putf getf putr getr putv getv =
     \<lparr>PutUniqueId = put_varint64, GetUniqueId = get_varint64,
      PutRuntimeId = put_uvarint64, GetRuntimeId = get_uvarint64,
      PutUnsignedVarInt = put_uvarint32, GetUnsignedVarInt = get_uvarint32,
      PutVector = put_vector putf, GetVector = get_vector getf,
      PutRotation = putr, GetRotation = getr,
      PutAttributeMap = put_map (put_attribute putf),
      GetAttributeMap = get_map (get_attribute getf),
      PutEntityData = put_map (put_entity_data putv),
      GetEntityData = get_map (get_entity_data getv)\<rparr>"

text \<open>
  Methods to run the cursor with: a floating-point number is carried as the 32 bits of
  its encoding and written as four bytes, low byte first; a rotation is a triple of
  such numbers, written alike for either flag; an entity data value is a byte.
\<close>

definition put_float :: "32 word \<Rightarrow> byte list" where
  "put_float w =
     [of_nat (unat w mod 256), of_nat (unat w div 256 mod 256),
      of_nat (unat w div 65536 mod 256), of_nat (unat w div 16777216 mod 256)]"

definition get_float :: "byte list \<Rightarrow> (32 word \<times> byte list) option" where
  "get_float bs =
     (case bs of
        b0 # b1 # b2 # b3 # rest \<Rightarrow>
          Some (of_nat (unat b0 + 256 * unat b1 + 65536 * unat b2 + 16777216 * unat b3), rest)
      | _ \<Rightarrow> None)"

definition put_byte :: "byte \<Rightarrow> byte list" where
  "put_byte b = [b]"

definition get_byte :: "byte list \<Rightarrow> (byte \<times> byte list) option" where
  "get_byte bs = (case bs of [] \<Rightarrow> None | b # rest \<Rightarrow> Some (b, rest))"

definition example_cursor ::
  "(32 word \<times> 32 word \<times> 32 word, 32 word \<times> 32 word \<times> 32 word, 32 word attribute, byte) cursor" where
  "example_cursor =
     spec_cursor put_float get_float (\<lambda>r flag. put_vector put_float r) (\<lambda>flag. get_vector get_float)
       put_byte get_byte"

definition example_packet ::
  "(string, 32 word attribute) gomap \<Rightarrow> (32 word, byte list) gomap \<Rightarrow>
   (32 word \<times> 32 word \<times> 32 word, 32 word \<times> 32 word \<times> 32 word, 32 word attribute, byte) AddEntityPacket" where
  "example_packet attributes entity_data =
     \<lparr>Buffer = [], Offset = 0, UniqueId = - 3, RuntimeId = 300, EntityType = 64,
      Position = (0x3F800000, 0x42800000, 0xC0000000), Motion = (0, 0, 0),
      Rotation = (0x42B40000, 0, 0x42B40000),
      Attributes = attributes, EntityData = entity_data\<rparr>"

definition example_attributes :: "(string, 32 word attribute) gomap" where
  "example_attributes =
     [(''health'', (0, 0x41A00000, 0x41A00000, 0x41A00000)), (''armor'', (0, 0x41A00000, 0, 0))]"

definition example_entity_data :: "(32 word, byte list) gomap" where
  "example_entity_data = [(7, [1, 2]), (2, [])]"

section \<open>Flushing the pending block updates\<close>

lemma add_blocks_append: "add_blocks blocks batch = batch @ map block_packet blocks"
  unfolding add_blocks_def AddPacket_def
  by (induction blocks arbitrary: batch) simp_all

lemma visit_chunk_eq:
  "visit_chunk cp d (i, blocks) st =
     (GetChunkPlayers cp (fst (GetChunkCoordinates cp i)) (snd (GetChunkCoordinates cp i)) d,
      snd st @ map block_packet blocks)"
  by (simp add: visit_chunk_def add_blocks_append split: prod.splits)

lemma fold_visit_chunk_batch:
  "snd (fold (visit_chunk cp d) es st) = snd st @ map block_packet (concat (map snd es))"
proof (induction es arbitrary: st)
  case Nil
  show ?case by simp
next
  case (Cons e es)
  obtain i blocks where e: "e = (i, blocks)" by (cases e)
  show ?case by (simp add: Cons.IH e visit_chunk_eq)
qed

lemma fold_visit_chunk_players:
  "fst (fold (visit_chunk cp d) (es @ [(i, blocks)]) st) =
     GetChunkPlayers cp (fst (GetChunkCoordinates cp i)) (snd (GetChunkCoordinates cp i)) d"
  by (simp add: visit_chunk_eq)

lemma UpdateBlocks_eq:
  "UpdateBlocks cp d =
     (d, map (\<lambda>p. SendBatch (snd (fold (visit_chunk cp d) (updatedBlocks d) ([], []))) (GetSession p))
           (fst (fold (visit_chunk cp d) (updatedBlocks d) ([], []))))"
  by (simp add: UpdateBlocks_def NewMinecraftPacketBatch_def split: prod.splits)

text \<open>
  The dimension after \<^verbatim>\<open>UpdateBlocks\<close> is the dimension before it, pending lists included.
\<close>

lemma UpdateBlocks_dimension: "fst (UpdateBlocks cp d) = d"
  by (simp add: UpdateBlocks_eq)

text \<open>
  Whatever the order in which the pending chunks are visited: one batch holds the
  packets of all of them, and it goes to the players of the chunk visited last.
\<close>

lemma UpdateBlocks_calls:
  assumes "updatedBlocks d = es @ [(i, blocks)]"
  shows "snd (UpdateBlocks cp d) =
     map (\<lambda>p. SendBatch (map block_packet (concat (map snd (updatedBlocks d)))) (GetSession p))
       (GetChunkPlayers cp (fst (GetChunkCoordinates cp i)) (snd (GetChunkCoordinates cp i)) d)"
proof -
  have "fst (fold (visit_chunk cp d) (updatedBlocks d) ([], [])) =
      GetChunkPlayers cp (fst (GetChunkCoordinates cp i)) (snd (GetChunkCoordinates cp i)) d"
    unfolding assms by (rule fold_visit_chunk_players)
  then show ?thesis
    by (simp add: UpdateBlocks_eq fold_visit_chunk_batch)
qed

lemma UpdateBlocks_no_pending: "updatedBlocks d = [] \<Longrightarrow> snd (UpdateBlocks cp d) = []"
  by (simp add: UpdateBlocks_eq)

lemmas run_UpdateBlocks =
  UpdateBlocks_def visit_chunk_def GetChunkPlayers_def index_slices_def two_chunks_def
  example_packing_def add_blocks_def AddPacket_def NewMinecraftPacketBatch_def

text \<open>
  C1. Each chunk's batch is to reach exactly the sessions interested in that chunk. The
  chunk at \<open>(0, 0)\<close> has the interested sessions A and B, the chunk at \<open>(1, 0)\<close> the
  session C. With a block pending on each of the two chunks, \<^verbatim>\<open>UpdateBlocks\<close> makes one
  batch of both blocks. When the runtime visits the chunk of C last, the batch goes to
  C alone: C receives the block of a chunk it has no interest in, and A and B receive
  nothing. When it visits the chunk of A and B last, A and B receive the block of the
  chunk of C as well, and C receives nothing. With a block pending on the first chunk
  only, the batch of that block goes to A and B.
\<close>

theorem UpdateBlocks_two_pending_chunks:
  "snd (UpdateBlocks example_packing (two_chunks [(0, [stone]), (4294967296, [planks])])) =
     [SendBatch [block_packet stone, block_packet planks] ''C''] \<and>
   snd (UpdateBlocks example_packing (two_chunks [(4294967296, [planks]), (0, [stone])])) =
     [SendBatch [block_packet planks, block_packet stone] ''A'',
      SendBatch [block_packet planks, block_packet stone] ''B''] \<and>
   snd (UpdateBlocks example_packing (two_chunks [(0, [stone])])) =
     [SendBatch [block_packet stone] ''A'', SendBatch [block_packet stone] ''B'']"
  by (simp add: run_UpdateBlocks)

text \<open>
  C2. After a flush the pending list of the chunk is to be empty, and no mutation is to
  be delivered twice. With one block pending on the chunk of A and B, the pending list
  after \<^verbatim>\<open>UpdateBlocks\<close> still holds the block, and a second \<^verbatim>\<open>UpdateBlocks\<close> sends the
  same batch to A and B again.
\<close>

theorem UpdateBlocks_keeps_pending_blocks:
  "updatedBlocks (fst (UpdateBlocks example_packing (two_chunks [(0, [stone])]))) = [(0, [stone])] \<and>
   snd (UpdateBlocks example_packing (two_chunks [(0, [stone])])) =
     [SendBatch [block_packet stone] ''A'', SendBatch [block_packet stone] ''B''] \<and>
   snd (UpdateBlocks example_packing (fst (UpdateBlocks example_packing (two_chunks [(0, [stone])])))) =
     [SendBatch [block_packet stone] ''A'', SendBatch [block_packet stone] ''B'']"
  by (simp add: run_UpdateBlocks)

section \<open>Ticking\<close>

lemma GeneratePongData_queryResult:
  "GeneratePongData ex (server\<lparr>queryResult := q\<rparr>) = GeneratePongData ex server"
  by (simp add: GeneratePongData_def GetMotd_def)

lemma fold_skip: "fold (\<lambda>level s. s) ls s = s"
  by (induction ls) simp_all

lemma Tick_not_running: "\<not> isRunning server \<Longrightarrow> Tick ex server = server"
  by (simp add: Tick_def)

lemma Tick_running:
  "isRunning server \<Longrightarrow>
   Tick ex server =
     (each_session (session_Tick ex)
        (if sint (tick server) smod 20 = 0 then recompute ex server else server))
     \<lparr>tick := tick server + 1\<rparr>"
  by (simp add: Tick_def Let_def fold_skip each_session_def recompute_def)

lemma announce_Tick:
  "isRunning server \<Longrightarrow>
   announce (Tick ex server) =
     (if sint (tick server) smod 20 = 0
      then (GenerateQueryResult ex server, GeneratePongData ex server) else announce server)"
  by (simp add: Tick_running announce_def each_session_def recompute_def Let_def
      GeneratePongData_queryResult)

lemma tick_Tick: "isRunning server \<Longrightarrow> tick (Tick ex server) = tick server + 1"
  by (simp add: Tick_running each_session_def recompute_def Let_def)

lemma isRunning_Tick: "isRunning (Tick ex server) = isRunning server"
  by (simp add: Tick_def Let_def fold_skip each_session_def recompute_def)

lemma isRunning_funpow: "isRunning ((Tick ex ^^ n) server) = isRunning server"
  by (induction n) (simp_all add: isRunning_Tick)

lemma tick_funpow:
  "isRunning server \<Longrightarrow> tick ((Tick ex ^^ n) server) = tick server + of_nat n"
  by (induction n) (simp_all add: tick_Tick isRunning_funpow)

text \<open>
  A tick leaves the level manager as it is: no dimension is flushed or ticked.
\<close>

lemma levelManager_Tick: "levelManager (Tick ex server) = levelManager server"
  by (simp add: Tick_def Let_def fold_skip each_session_def recompute_def)

lemma sint_counter: "n < 9223372036854775808 \<Longrightarrow> sint (of_nat n :: 64 word) = int n"
  by (simp add: signed_of_nat signed_take_bit_int_eq_self)

lemma counter_smod:
  assumes n: "n < 9223372036854775808"
  shows "(sint (of_nat n :: 64 word) smod 20 = 0) = (n mod 20 = 0)"
proof -
  have "int n smod 20 = int n mod 20" by (rule smod_mod_positive) simp_all
  then show ?thesis by (simp add: sint_counter [OF n]) presburger
qed

lemma sint_succ:
  fixes w :: "64 word"
  assumes "sint w < 9223372036854775807"
  shows "sint (w + 1) = sint w + 1"
proof -
  have "- (2 ^ 63) \<le> sint w" using sint_ge [of w] by simp
  then have "signed_take_bit 63 (sint w + 1) = sint w + 1"
    using assms by (intro signed_take_bit_int_eq_self) simp_all
  then show ?thesis by (simp add: sint_word_ariths)
qed

lemma NewServer_fields:
  "snd (NewServer ex path cfg) = Inr s \<Longrightarrow>
   \<not> isRunning s \<and> tick s = 0 \<and> queryResult s = query_NewManager ex \<and> config s = cfg"
  by (auto simp: NewServer_def Let_def split: if_splits sum.splits)

lemma Start_fields:
  "\<not> isRunning s \<Longrightarrow>
   isRunning (fst (snd (Start ex s))) \<and> tick (fst (snd (Start ex s))) = tick s \<and>
   queryResult (fst (snd (Start ex s))) = queryResult s \<and>
   config (fst (snd (Start ex s))) = config s"
  by (simp add: Start_def Let_def)

text \<open>
  A fresh running server, as \<^verbatim>\<open>NewServer\<close> and then \<^verbatim>\<open>Start\<close> leave it: its counter is 0
  and its cached query result is the one the query manager was created with.
\<close>

lemma fresh_server_fields:
  assumes "fresh_server ex path cfg = Some s0"
  shows "isRunning s0 \<and> tick s0 = 0 \<and> queryResult s0 = query_NewManager ex \<and> config s0 = cfg"
proof -
  from assms obtain s where s: "snd (NewServer ex path cfg) = Inr s" and s0: "s0 = fst (snd (Start ex s))"
    by (auto simp: fresh_server_def split: sum.splits)
  from NewServer_fields [OF s] Start_fields [of s ex] show ?thesis
    unfolding s0 by simp
qed

lemma announce_kept:
  assumes "isRunning s0" and "tick s0 = 0"
  shows "n \<le> 19 \<Longrightarrow> announce ((Tick ex ^^ Suc n) s0) = announce (Tick ex s0)"
proof (induction n)
  case 0
  show ?case by simp
next
  case (Suc n)
  let ?s = "(Tick ex ^^ Suc n) s0"
  have run: "isRunning ?s" using assms(1) by (simp only: isRunning_funpow)
  have "tick ?s = of_nat (Suc n)"
    using tick_funpow [OF assms(1), where ex=ex and n="Suc n"] assms(2) by simp
  moreover have "Suc n < 9223372036854775808" using Suc.prems by simp
  moreover have "Suc n mod 20 \<noteq> 0" using Suc.prems by simp
  ultimately have "sint (tick ?s) smod 20 \<noteq> 0" using counter_smod [where n="Suc n"] by simp
  then have "announce (Tick ex ?s) = announce ?s" using announce_Tick [OF run, where ex=ex] by simp
  then show ?case using Suc by simp
qed

text \<open>
  The first tick of a fresh server replaces the cached query result whenever the
  configured message of the day is not the one of the query manager's initial result:
  the query manager is created without the configuration.
\<close>

lemma first_tick_changes_cache:
  assumes "fresh_server ex path cfg = Some s0" and "ServerMotd cfg \<noteq> MOTD (query_NewManager ex)"
  shows "queryResult (Tick ex s0) \<noteq> queryResult s0"
proof -
  from fresh_server_fields [OF assms(1)]
  have f: "isRunning s0" "tick s0 = 0" "queryResult s0 = query_NewManager ex" "config s0 = cfg"
    by simp_all
  have "announce (Tick ex s0) = (GenerateQueryResult ex s0, GeneratePongData ex s0)"
    using announce_Tick [OF f(1), where ex=ex] f(2) by simp
  then have "queryResult (Tick ex s0) = GenerateQueryResult ex s0" by (simp add: announce_def)
  then have "MOTD (queryResult (Tick ex s0)) = ServerMotd cfg"
    by (simp add: GenerateQueryResult_def GetMotd_def f(4))
  with assms(2) f(3) show ?thesis by auto
qed

lemmas run_server =
  NewServer_def Start_def fresh_server_def example_outside_def example_config_def
  GeneratePongData_def GenerateQueryResult_def GetMotd_def GetSessionCount_def
  GetMinecraftNetworkVersion_def GetMinecraftVersion_def GetEngineName_def GoMineName_def
  GoMineVersion_def decimal_def decimal_nat.simps digit_char_def zero_Result_def
  NewDimension_def OverworldId_def Let_def

lemma example_fresh_Some:
  "fresh_server (example_outside (Inl ''unused'')) ''/srv/gomine/'' example_config = Some example_fresh"
  by (simp add: run_server example_fresh_def)

text \<open>
  C3. The claim: 19 ticks of a fresh running server leave the cached announce data as
  it was, and the 20th tick updates it. The code tests the counter before it increments
  it, and the counter starts at 0: the first tick recomputes the cache, the ticks 2 to
  20 (counter 1 to 19) leave it alone, the tick 21 (counter 20) recomputes it. On the
  example server the cached data after 19 ticks differ from the initial data, and the
  20th tick does not change them.
\<close>

theorem nineteen_ticks_change_cache:
  "announce ((Tick (example_outside (Inl ''unused'')) ^^ 19) example_fresh) \<noteq> announce example_fresh \<and>
   announce ((Tick (example_outside (Inl ''unused'')) ^^ 20) example_fresh) =
     announce ((Tick (example_outside (Inl ''unused'')) ^^ 19) example_fresh)"
proof -
  let ?E = "example_outside (Inl ''unused'') :: (nat, unit) outside"
  from fresh_server_fields [OF example_fresh_Some]
  have run: "isRunning example_fresh" and zero: "tick example_fresh = 0" by simp_all
  have "ServerMotd example_config \<noteq> MOTD (query_NewManager ?E)"
    by (simp add: example_config_def example_outside_def zero_Result_def)
  from first_tick_changes_cache [OF example_fresh_Some this]
  have "announce (Tick ?E example_fresh) \<noteq> announce example_fresh" by (auto simp: announce_def)
  moreover have "announce ((Tick ?E ^^ 19) example_fresh) = announce (Tick ?E example_fresh)"
    using announce_kept [OF run zero, where n=18 and ex="?E"] by simp
  moreover have "announce ((Tick ?E ^^ 20) example_fresh) = announce (Tick ?E example_fresh)"
    using announce_kept [OF run zero, where n=19 and ex="?E"] by simp
  ultimately show ?thesis by simp
qed

text \<open>
  C3, as the code has it. For a fresh running server: the first tick sets the cached
  query result and pong data to the freshly generated ones; after each of the first 20
  ticks the cache is what the first tick made it; the 21st tick recomputes it from the
  state it finds. For any running server, a tick recomputes the cache when the counter
  it finds is a multiple of 20, and leaves the cache unchanged otherwise.
\<close>

theorem Tick_recompute_schedule:
  assumes "fresh_server ex path cfg = Some s0"
  shows "announce (Tick ex s0) = (GenerateQueryResult ex s0, GeneratePongData ex s0) \<and>
         (\<forall>n. 1 \<le> n \<and> n \<le> 20 \<longrightarrow> announce ((Tick ex ^^ n) s0) = announce (Tick ex s0)) \<and>
         announce ((Tick ex ^^ 21) s0) =
           (GenerateQueryResult ex ((Tick ex ^^ 20) s0), GeneratePongData ex ((Tick ex ^^ 20) s0)) \<and>
         (\<forall>server. isRunning server \<longrightarrow>
            announce (Tick ex server) =
              (if sint (tick server) smod 20 = 0
               then (GenerateQueryResult ex server, GeneratePongData ex server)
               else announce server))"
proof -
  from fresh_server_fields [OF assms] have run: "isRunning s0" and zero: "tick s0 = 0" by simp_all
  have first: "announce (Tick ex s0) = (GenerateQueryResult ex s0, GeneratePongData ex s0)"
    using announce_Tick [OF run, where ex=ex] zero by simp
  have kept: "announce ((Tick ex ^^ n) s0) = announce (Tick ex s0)" if "1 \<le> n \<and> n \<le> 20" for n
  proof -
    from that obtain m where "n = Suc m" "m \<le> 19" by (cases n) auto
    then show ?thesis using announce_kept [OF run zero, where n=m and ex=ex] by simp
  qed
  let ?s = "(Tick ex ^^ 20) s0"
  have run20: "isRunning ?s" using run by (simp only: isRunning_funpow)
  have "tick ?s = 20" using tick_funpow [OF run, where ex=ex and n=20] zero by simp
  then have "announce (Tick ex ?s) = (GenerateQueryResult ex ?s, GeneratePongData ex ?s)"
    using announce_Tick [OF run20, where ex=ex] by simp
  moreover have "(Tick ex ^^ 21) s0 = Tick ex ?s"
  proof -
    have "(21::nat) = Suc 20" by simp
    then show ?thesis by (simp only: funpow.simps o_apply)
  qed
  ultimately have again:
    "announce ((Tick ex ^^ 21) s0) = (GenerateQueryResult ex ?s, GeneratePongData ex ?s)"
    by simp
  show ?thesis using first kept again announce_Tick by blast
qed

theorem Tick_recompute_schedule_witness:
  "fresh_server (example_outside (Inl ''unused'')) ''/srv/gomine/'' example_config = Some example_fresh \<and>
   announce (Tick (example_outside (Inl ''unused'')) example_fresh) =
     (GenerateQueryResult (example_outside (Inl ''unused'')) example_fresh,
      GeneratePongData (example_outside (Inl ''unused'')) example_fresh) \<and>
   announce ((Tick (example_outside (Inl ''unused'')) ^^ 20) example_fresh) =
     announce (Tick (example_outside (Inl ''unused'')) example_fresh) \<and>
   GameMode (queryResult example_fresh) = [] \<and>
   GameMode (GenerateQueryResult (example_outside (Inl ''unused'')) example_fresh) = ''SMP''"
proof -
  have "GameMode (queryResult example_fresh) = []"
    by (simp add: example_fresh_def zero_Result_def)
  moreover have "GameMode (GenerateQueryResult (example_outside (Inl ''unused'')) example_fresh) = ''SMP''"
    by (simp add: GenerateQueryResult_def)
  ultimately show ?thesis
    using Tick_recompute_schedule [OF example_fresh_Some] example_fresh_Some by simp
qed

text \<open>
  C7. The claim: a tick of a server that is not running changes nothing, and while the
  server runs the tick count goes up by exactly one per tick and increases
  monotonically. The counter is an \<^verbatim>\<open>int64\<close>: at its largest value the increment wraps
  around to the smallest one, so that the count after the tick is below the count
  before it.
\<close>

theorem Tick_counter_wraps:
  "isRunning (example_server 9223372036854775807 []) \<and>
   sint (tick (example_server 9223372036854775807 [])) = 9223372036854775807 \<and>
   sint (tick (Tick (example_outside (Inl ''unused'')) (example_server 9223372036854775807 []))) =
     - 9223372036854775808"
proof -
  have "isRunning (example_server 9223372036854775807 [])" by (simp add: example_server_def)
  from tick_Tick [OF this] show ?thesis by (simp add: example_server_def)
qed

text \<open>
  C7, as the code has it. A tick of a server that is not running returns the server as
  it is. A tick of a running server adds one to the counter in 64-bit arithmetic and
  leaves the server running; the count, read as a signed number, goes up by exactly one
  as long as it is below \<open>2^63 - 1\<close>, and after \<open>n < 2^63\<close> ticks of a running server
  whose counter was 0 it is \<open>n\<close>.
\<close>

theorem Tick_counter:
  "(\<not> isRunning server \<longrightarrow> Tick ex server = server) \<and>
   (isRunning server \<longrightarrow> tick (Tick ex server) = tick server + 1 \<and> isRunning (Tick ex server)) \<and>
   (isRunning server \<and> sint (tick server) < 9223372036854775807 \<longrightarrow>
      sint (tick (Tick ex server)) = sint (tick server) + 1) \<and>
   (isRunning server \<and> tick server = 0 \<and> n < 9223372036854775808 \<longrightarrow>
      sint (tick ((Tick ex ^^ n) server)) = int n)"
proof -
  have "sint (tick ((Tick ex ^^ n) server)) = int n"
    if "isRunning server" "tick server = 0" "n < 9223372036854775808"
    using tick_funpow [OF that(1), where ex=ex and n=n] that(2) sint_counter [OF that(3)] by simp
  then show ?thesis
    by (simp add: Tick_not_running tick_Tick isRunning_Tick sint_succ)
qed

theorem Tick_counter_witness:
  "\<not> isRunning ((example_server 5 [])\<lparr>isRunning := False\<rparr>) \<and>
   Tick (example_outside (Inl ''unused'')) ((example_server 5 [])\<lparr>isRunning := False\<rparr>) =
     (example_server 5 [])\<lparr>isRunning := False\<rparr> \<and>
   isRunning (example_server 5 []) \<and>
   sint (tick (example_server 5 [])) = 5 \<and>
   sint (tick (Tick (example_outside (Inl ''unused'')) (example_server 5 []))) = 6 \<and>
   isRunning (example_server 0 []) \<and> tick (example_server 0 []) = 0 \<and>
   sint (tick ((Tick (example_outside (Inl ''unused'')) ^^ 40) (example_server 0 []))) = 40"
  using Tick_counter [of "(example_server 5 [])\<lparr>isRunning := False\<rparr>" "example_outside (Inl ''unused'')" 0]
    Tick_counter [of "example_server 5 []" "example_outside (Inl ''unused'')" 0]
    Tick_counter [of "example_server 0 []" "example_outside (Inl ''unused'')" 40]
  by (simp add: example_server_def)

text \<open>
  C4. The claim: every tick of a running server flushes the pending block updates of
  every dimension. On a running server whose dimension has a block pending on the chunk
  of A and B, \<^verbatim>\<open>Tick\<close> changes the counter and nothing else: the block is still pending
  and no session has been sent anything, whereas \<^verbatim>\<open>UpdateBlocks\<close> on that dimension
  asks the adapter to send the batch to A and B.
\<close>

theorem Tick_flushes_nothing:
  "Tick (example_outside (Inl ''unused'')) (example_server 5 [(0, [stone])]) =
     (example_server 5 [(0, [stone])])\<lparr>tick := 6\<rparr> \<and>
   map (\<lambda>(n, l). map (\<lambda>(m, d). updatedBlocks d) (dimensions l))
     (levels (levelManager (Tick (example_outside (Inl ''unused'')) (example_server 5 [(0, [stone])])))) =
     [[[(0, [stone])]]] \<and>
   map (\<lambda>(n, session). sent session)
     (sessionManager (Tick (example_outside (Inl ''unused'')) (example_server 5 [(0, [stone])]))) =
     [[], [], []] \<and>
   snd (UpdateBlocks example_packing (two_chunks [(0, [stone])])) =
     [SendBatch [block_packet stone] ''A'', SendBatch [block_packet stone] ''B'']"
  by (simp add: Tick_def Let_def each_session_def example_server_def example_outside_def
      example_session_def two_chunks_def run_UpdateBlocks)

section \<open>Construction with encryption\<close>

lemma NewServer_key_generated:
  assumes "UseEncryption cfg" and "GenerateKey ex = Inr key"
  shows "\<exists>s. snd (NewServer ex path cfg) = Inr s \<and> privateKey s = Some key \<and>
             length (token s) = 128 \<and> \<not> isRunning s"
  using assms by (simp add: NewServer_def Let_def)

lemma NewServer_log:
  assumes "UseEncryption cfg" and "GenerateKey ex = Inr key"
  shows "fst (NewServer ex path cfg) =
           Logger ''LogError'' [Nil] #
           (if IsOnCurve ex (X key) (Y key) then []
            else [Logger ''Error'' [Str ''Invalid private key generated'']])"
  using assms by (simp add: NewServer_def Let_def)

lemma NewServer_no_key:
  assumes "UseEncryption cfg" and "GenerateKey ex = Inl err"
  shows "NewServer ex path cfg = ([Logger ''LogError'' [Str err]], Inl NilPointerDereference)"
  using assms by (simp add: NewServer_def Let_def)

text \<open>
  C6. The claim: with encryption configured, a failure of key generation or of curve
  validation at startup is fatal, and the server does not start. With a generated key
  that is not on the curve, \<^verbatim>\<open>NewServer\<close> reports "Invalid private key generated" to the
  logger and returns the server with that key; \<^verbatim>\<open>Start\<close> then sets it running with no
  error, and it ticks.
\<close>

theorem off_curve_key_server_starts:
  "UseEncryption encrypting_config \<and>
   \<not> IsOnCurve (example_outside (Inr off_curve_key) :: (nat, unit) outside)
       (X off_curve_key) (Y off_curve_key) \<and>
   fst (NewServer (example_outside (Inr off_curve_key) :: (nat, unit) outside)
         ''/srv/gomine/'' encrypting_config) =
     [Logger ''LogError'' [Nil], Logger ''Error'' [Str ''Invalid private key generated'']] \<and>
   (case snd (NewServer (example_outside (Inr off_curve_key) :: (nat, unit) outside)
                ''/srv/gomine/'' encrypting_config) of
      Inl p \<Rightarrow> False
    | Inr s \<Rightarrow>
        privateKey s = Some off_curve_key \<and>
        fst (Start (example_outside (Inr off_curve_key)) s) = None \<and>
        isRunning (fst (snd (Start (example_outside (Inr off_curve_key)) s))) \<and>
        tick (Tick (example_outside (Inr off_curve_key))
               (fst (snd (Start (example_outside (Inr off_curve_key)) s)))) = 1)"
  by (simp add: run_server encrypting_config_def Tick_def each_session_def recompute_def
      P384_IsOnCurve_def P384_p_def P384_b_def off_curve_key_def)

text \<open>
  C6, as the code has it. With encryption configured: when key generation fails,
  \<^verbatim>\<open>NewServer\<close> passes the error to the logger and panics on the nil key, so that no
  server is returned; when a key is generated, \<^verbatim>\<open>NewServer\<close> returns a server that holds
  the key and a token of 128 bytes whether or not the key is on the curve, a key off
  the curve being reported to the logger and nothing more, and \<^verbatim>\<open>Start\<close> sets that server
  running and returns the error of the transport, if any.
\<close>

theorem NewServer_with_encryption:
  assumes "UseEncryption cfg"
  shows "case GenerateKey ex of
           Inl err \<Rightarrow>
             NewServer ex path cfg = ([Logger ''LogError'' [Str err]], Inl NilPointerDereference)
         | Inr key \<Rightarrow>
             (\<exists>s. snd (NewServer ex path cfg) = Inr s \<and> privateKey s = Some key \<and>
                  length (token s) = 128 \<and>
                  fst (NewServer ex path cfg) =
                    Logger ''LogError'' [Nil] #
                    (if IsOnCurve ex (X key) (Y key) then []
                     else [Logger ''Error'' [Str ''Invalid private key generated'']]) \<and>
                  isRunning (fst (snd (Start ex s))) \<and>
                  fst (Start ex s) =
                    map_option TransportError
                      (RakLibStart ex (ServerIp cfg) (uint (ServerPort cfg))))"
proof (cases "GenerateKey ex")
  case (Inl err)
  then show ?thesis using assms by (simp add: NewServer_no_key)
next
  case (Inr key)
  from NewServer_key_generated [OF assms Inr, of path]
  obtain s where s: "snd (NewServer ex path cfg) = Inr s" "privateKey s = Some key"
    "length (token s) = 128" "\<not> isRunning s"
    by blast
  from NewServer_fields [OF s(1)] have cfg: "config s = cfg" by simp
  have "isRunning (fst (snd (Start ex s)))" using Start_fields [OF s(4)] by simp
  moreover have "fst (Start ex s) =
      map_option TransportError (RakLibStart ex (ServerIp cfg) (uint (ServerPort cfg)))"
    using s(4) cfg by (simp add: Start_def Let_def)
  ultimately show ?thesis
    using Inr s NewServer_log [OF assms Inr, of path] by simp
qed

theorem NewServer_with_encryption_witness:
  "UseEncryption encrypting_config \<and>
   GenerateKey (example_outside (Inr off_curve_key) :: (nat, unit) outside) = Inr off_curve_key \<and>
   (\<exists>s. snd (NewServer (example_outside (Inr off_curve_key) :: (nat, unit) outside)
               ''/srv/gomine/'' encrypting_config) = Inr s \<and>
        privateKey s = Some off_curve_key \<and> length (token s) = 128 \<and>
        isRunning (fst (snd (Start (example_outside (Inr off_curve_key)) s)))) \<and>
   UseEncryption encrypting_config \<and>
   NewServer (example_outside (Inl ''no entropy'') :: (nat, unit) outside)
     ''/srv/gomine/'' encrypting_config =
     ([Logger ''LogError'' [Str ''no entropy'']], Inl NilPointerDereference)"
proof -
  have enc: "UseEncryption encrypting_config"
    by (simp add: encrypting_config_def)
  have 1: "GenerateKey (example_outside (Inr off_curve_key) :: (nat, unit) outside) = Inr off_curve_key"
    by (simp add: example_outside_def)
  have 2: "GenerateKey (example_outside (Inl ''no entropy'') :: (nat, unit) outside) = Inl ''no entropy''"
    by (simp add: example_outside_def)
  show ?thesis
    using NewServer_with_encryption [OF enc, of "example_outside (Inr off_curve_key) :: (nat, unit) outside" "''/srv/gomine/''"]
      NewServer_with_encryption [OF enc, of "example_outside (Inl ''no entropy'') :: (nat, unit) outside" "''/srv/gomine/''"]
      enc
    unfolding 1 2 by auto
qed

section \<open>Raw packets\<close>

lemma HandleRaw_panics: "cap packet < 2 \<Longrightarrow> HandleRaw ex packet addr server = Inl SliceBoundsOutOfRange"
  by (simp add: HandleRaw_def slice_to_def)

lemma HandleRaw_returns:
  "2 \<le> cap packet \<Longrightarrow> \<exists>calls. HandleRaw ex packet addr server = Inr (server, calls)"
  by (simp add: HandleRaw_def slice_to_def)

text \<open>
  C10. The claim: for every raw packet shorter than 2 bytes the slice of the first two
  bytes is out of bounds. A packet of length 1 that is a window on a larger buffer, as
  a datagram read into a buffer is, has the capacity for the slice: \<^verbatim>\<open>HandleRaw\<close> does not
  panic, compares the byte of the packet and the byte behind it with the header, and
  here takes the packet for a query.
\<close>

theorem HandleRaw_short_packet_with_capacity:
  "length (elems \<lparr>elems = [0xFE], spare = [0xFD]\<rparr>) < 2 \<and>
   HandleRaw (example_outside (Inl ''unused'')) \<lparr>elems = [0xFE], spare = [0xFD]\<rparr> ''10.0.0.1:4000''
       (example_server 5 []) =
     Inr (example_server 5 [], [HandleQuery [0xFE] ''10.0.0.1:4000''])"
  by (simp add: HandleRaw_def slice_to_def cap_def example_outside_def example_server_def
      example_config_def)

text \<open>
  C10, as the code has it. \<^verbatim>\<open>HandleRaw\<close> tests no length before it slices: it panics,
  with a slice out of bounds, exactly for the packets whose capacity is below 2, and it
  panics in no other way. In particular it panics for every packet shorter than 2
  bytes that has no spare capacity.
\<close>

theorem HandleRaw_panics_iff:
  "(HandleRaw ex packet addr server = Inl SliceBoundsOutOfRange) = (cap packet < 2) \<and>
   (\<forall>p. HandleRaw ex packet addr server = Inl p \<longrightarrow> p = SliceBoundsOutOfRange) \<and>
   (spare packet = [] \<and> length (elems packet) < 2 \<longrightarrow>
      HandleRaw ex packet addr server = Inl SliceBoundsOutOfRange)"
proof (cases "cap packet < 2")
  case True
  then show ?thesis by (simp add: HandleRaw_panics)
next
  case False
  then obtain calls where "HandleRaw ex packet addr server = Inr (server, calls)"
    using HandleRaw_returns [of packet ex addr server] by auto
  then show ?thesis using False by (auto simp: cap_def)
qed

theorem HandleRaw_panics_iff_witness:
  "spare \<lparr>elems = [0xFE], spare = []\<rparr> = [] \<and> length (elems \<lparr>elems = [0xFE], spare = []\<rparr>) < 2 \<and>
   HandleRaw (example_outside (Inl ''unused'')) \<lparr>elems = [0xFE], spare = []\<rparr> ''10.0.0.1:4000''
       (example_server 5 []) = Inl SliceBoundsOutOfRange \<and>
   cap \<lparr>elems = [], spare = []\<rparr> < 2 \<and>
   HandleRaw (example_outside (Inl ''unused'')) \<lparr>elems = [], spare = []\<rparr> ''10.0.0.1:4000''
       (example_server 5 []) = Inl SliceBoundsOutOfRange"
  using HandleRaw_panics_iff [of "example_outside (Inl ''unused'')" "\<lparr>elems = [0xFE], spare = []\<rparr>"
      "''10.0.0.1:4000''" "example_server 5 []"]
    HandleRaw_panics_iff [of "example_outside (Inl ''unused'')" "\<lparr>elems = [], spare = []\<rparr>"
      "''10.0.0.1:4000''" "example_server 5 []"]
  by (simp add: cap_def)

section \<open>Disconnecting\<close>

lemma find_handle_None:
  "(GetSessionByRakNetSession sessions s = None) =
   (\<forall>(n, session) \<in> set sessions. rakNetSession session \<noteq> s)"
  by (auto simp: GetSessionByRakNetSession_def find_None_iff)

lemma find_handle_Some:
  assumes "GetSessionByRakNetSession sessions s = Some session"
  shows "\<exists>n. (n, session) \<in> set sessions \<and> rakNetSession session = s"
proof -
  from assms obtain e where e: "find (\<lambda>(n, session). rakNetSession session = s) sessions = Some e"
    and "snd e = session"
    by (auto simp: GetSessionByRakNetSession_def)
  from e have "e \<in> set sessions \<and> (case e of (n, session) \<Rightarrow> rakNetSession session = s)"
    by (auto simp: find_Some_iff in_set_conv_nth)
  with \<open>snd e = session\<close> show ?thesis by (cases e) auto
qed

text \<open>
  With at most one session per RakNet session, no session bound to the handle is left
  once the session found for it has been removed.
\<close>

lemma lookup_after_remove:
  assumes "distinct (map (\<lambda>(n, session). rakNetSession session) sessions)"
  shows "GetSessionByRakNetSession
           (RemoveMinecraftSession sessions (GetSessionByRakNetSession sessions s)) s = None"
proof (cases "GetSessionByRakNetSession sessions s")
  case None
  then show ?thesis by (simp add: RemoveMinecraftSession_def)
next
  case (Some session)
  from find_handle_Some [OF Some] obtain n where
    n: "(n, session) \<in> set sessions" "rakNetSession session = s" by blast
  from assms have inj: "inj_on (\<lambda>(n, session). rakNetSession session) (set sessions)"
    by (simp add: distinct_map)
  have "session' = session" if "(n', session') \<in> set sessions" "rakNetSession session' = s"
    for n' session'
    using inj_onD [OF inj, of "(n', session')" "(n, session)"] that n by simp
  then show ?thesis
    by (auto simp: Some RemoveMinecraftSession_def find_handle_None)
qed

lemma lookup_each_session:
  assumes "\<And>session. rakNetSession (f session) = rakNetSession session"
  shows "(GetSessionByRakNetSession (sessionManager (each_session f server)) s = None) =
         (GetSessionByRakNetSession (sessionManager server) s = None)"
  by (auto simp: find_handle_None each_session_def assms)

lemma HandleDisconnect_unbound:
  assumes "GetSessionByRakNetSession (sessionManager server) s = None"
  shows "HandleDisconnect ex s server = (server, [Logger ''Debug'' [Ptr s, Str ''disconnected!'']])"
  using assms by (simp add: HandleDisconnect_def RemoveMinecraftSession_def)

lemma HandleDisconnect_unbinds:
  assumes "distinct (map (\<lambda>(n, session). rakNetSession session) (sessionManager server))"
  shows "GetSessionByRakNetSession (sessionManager (fst (HandleDisconnect ex s server))) s = None"
proof -
  let ?removed = "server\<lparr>sessionManager :=
      RemoveMinecraftSession (sessionManager server) (GetSessionByRakNetSession (sessionManager server) s)\<rparr>"
  have removed: "GetSessionByRakNetSession (sessionManager ?removed) s = None"
    using lookup_after_remove [OF assms] by simp
  have 1: "GetSessionByRakNetSession (sessionManager (each_session (SendMessage m) srv)) s = None"
    if "GetSessionByRakNetSession (sessionManager srv) s = None" for m and srv :: "('a, 'b) Server"
    using that by (subst lookup_each_session) (simp_all add: SendMessage_def)
  have 2: "GetSessionByRakNetSession (sessionManager (each_session
            (\<lambda>online. SendPlayerList ListTypeRemove [(playerName (player online), player online)] online)
            srv)) s = None"
    if "GetSessionByRakNetSession (sessionManager srv) s = None" for srv :: "('a, 'b) Server"
    using that by (subst lookup_each_session) (simp_all add: SendPlayerList_def)
  show ?thesis
  proof (cases "GetSessionByRakNetSession (sessionManager server) s")
    case None
    then show ?thesis by (simp add: HandleDisconnect_unbound)
  next
    case (Some session)
    from removed have r: "GetSessionByRakNetSession
        (sessionManager (server\<lparr>sessionManager :=
           RemoveMinecraftSession (sessionManager server) (Some session)\<rparr>)) s = None"
      by (simp only: Some)
    show ?thesis
      using r 1 [OF 2 [OF r]]
      by (simp add: HandleDisconnect_def Let_def BroadcastMessage_def Some)
  qed
qed

text \<open>
  C5. The claim: a second call of the disconnect handler for the same handle leaves the
  state as the first call left it, and a call for a handle with no bound session is a
  no-op that does not fail. In a session manager that holds at most one session per
  RakNet session, the second call returns the server unchanged and does nothing but
  write the debug line of every call to the logger; so does a call for a handle that
  no session is bound to.
\<close>

theorem HandleDisconnect_idempotent:
  assumes "distinct (map (\<lambda>(n, session). rakNetSession session) (sessionManager server))"
  shows "HandleDisconnect ex s (fst (HandleDisconnect ex s server)) =
           (fst (HandleDisconnect ex s server), [Logger ''Debug'' [Ptr s, Str ''disconnected!'']]) \<and>
         (GetSessionByRakNetSession (sessionManager server) s = None \<longrightarrow>
            HandleDisconnect ex s server = (server, [Logger ''Debug'' [Ptr s, Str ''disconnected!'']]))"
  using HandleDisconnect_unbound [OF HandleDisconnect_unbinds [OF assms]]
    HandleDisconnect_unbound [of server s ex]
  by simp

lemmas run_HandleDisconnect =
  HandleDisconnect_def GetSessionByRakNetSession_def RemoveMinecraftSession_def
  BroadcastMessage_def each_session_def SendPlayerList_def SendMessage_def
  example_server_def example_session_def example_outside_def Let_def

theorem HandleDisconnect_idempotent_witness:
  "distinct (map (\<lambda>(n, session). rakNetSession session) (sessionManager (example_server 5 []))) \<and>
   map fst (sessionManager (fst (HandleDisconnect (example_outside (Inl ''unused'')) 2 (example_server 5 [])))) =
     [''A'', ''C''] \<and>
   HandleDisconnect (example_outside (Inl ''unused'')) 2
       (fst (HandleDisconnect (example_outside (Inl ''unused'')) 2 (example_server 5 []))) =
     (fst (HandleDisconnect (example_outside (Inl ''unused'')) 2 (example_server 5 [])),
      [Logger ''Debug'' [Ptr 2, Str ''disconnected!'']]) \<and>
   GetSessionByRakNetSession (sessionManager (example_server 5 [])) 9 = None \<and>
   HandleDisconnect (example_outside (Inl ''unused'')) 9 (example_server 5 []) =
     (example_server 5 [], [Logger ''Debug'' [Ptr 9, Str ''disconnected!'']])"
proof -
  have d: "distinct (map (\<lambda>(n, session). rakNetSession session) (sessionManager (example_server 5 [])))"
    by (simp add: example_server_def example_session_def)
  have n: "GetSessionByRakNetSession (sessionManager (example_server 5 [])) 9 = None"
    by (simp add: GetSessionByRakNetSession_def example_server_def example_session_def)
  have r: "map fst (sessionManager (fst (HandleDisconnect (example_outside (Inl ''unused'')) 2
      (example_server 5 [])))) = [''A'', ''C'']"
    by (simp add: run_HandleDisconnect)
  show ?thesis
    using HandleDisconnect_idempotent [OF d, of "example_outside (Inl ''unused'')" 2]
      HandleDisconnect_idempotent [OF d, of "example_outside (Inl ''unused'')" 9] d n r
    by simp
qed

section \<open>Round trip of the entity-spawn packet\<close>

lemma round_tripsD: "round_trips w r \<Longrightarrow> r (w v @ rest) = Some (v, rest)"
  by (simp add: round_trips_def)

lemma round_trips_mapD:
  "round_trips_map w r \<Longrightarrow> is_map m \<Longrightarrow> \<exists>m'. r (w m @ rest) = Some (m', rest) \<and> same_map m' m"
  by (simp add: round_trips_map_def)

lemma Encode_Buffer:
  "Buffer (Encode c pk) =
     Buffer pk @ PutUniqueId c (UniqueId pk) @ PutRuntimeId c (RuntimeId pk) @
     PutUnsignedVarInt c (EntityType pk) @ PutVector c (Position pk) @ PutVector c (Motion pk) @
     PutRotation c (Rotation pk) False @ PutAttributeMap c (Attributes pk) @
     PutEntityData c (EntityData pk) @ PutUnsignedVarInt c 0"
  by (simp add: Encode_def put_def Let_def)

lemma Encode_fields: "Encode c pk = pk\<lparr>Buffer := Buffer (Encode c pk)\<rparr>"
  by (simp add: Encode_def put_def Let_def)

lemma get_at:
  assumes "Buffer pk = pre @ bytes @ rest" and "Offset pk = length pre"
    and "parser (bytes @ rest) = Some (v, rest)"
  shows "get parser pk = Some (v, pk\<lparr>Offset := length pre + length bytes\<rparr>)"
  using assms by (simp add: get_def)

text \<open>
  C8. For the entity-spawn packet, decoding the bytes that \<^verbatim>\<open>Encode\<close> produced yields the
  field values of the packet encoded, whatever the maps hold. The methods of the cursor
  are taken as they come, under the round-trip law of the binary cursor; the maps are
  Go maps, so that a map read back is the same map and the order of its entries is not
  in question. \<^verbatim>\<open>Encode\<close> appends to the buffer of the packet; the receiving packet holds
  those bytes, followed by any others, and reads from where the packet's own bytes
  begin. \<^verbatim>\<open>Decode\<close> leaves unread the count 0 that \<^verbatim>\<open>Encode\<close> writes last.
\<close>

theorem AddEntityPacket_round_trip:
  fixes pk q :: "('v, 'r, 'av, 'ev) AddEntityPacket"
  assumes c: "lawful c"
    and maps: "is_map (Attributes pk)" "is_map (EntityData pk)"
    and q: "Buffer q = Buffer (Encode c pk) @ post" "Offset q = length (Buffer pk)"
  shows "\<exists>q'. Decode c q = Some q' \<and> same_fields q' pk \<and> Buffer q' = Buffer q \<and>
              drop (Offset q') (Buffer q') = PutUnsignedVarInt c 0 @ post"
proof -
  define b1 where "b1 = PutUniqueId c (UniqueId pk)"
  define b2 where "b2 = PutRuntimeId c (RuntimeId pk)"
  define b3 where "b3 = PutUnsignedVarInt c (EntityType pk)"
  define b4 where "b4 = PutVector c (Position pk)"
  define b5 where "b5 = PutVector c (Motion pk)"
  define b6 where "b6 = PutRotation c (Rotation pk) False"
  define b7 where "b7 = PutAttributeMap c (Attributes pk)"
  define b8 where "b8 = PutEntityData c (EntityData pk)"
  define b9 where "b9 = PutUnsignedVarInt c 0 @ post"
  define pre where "pre = Buffer pk"
  note bs = b1_def b2_def b3_def b4_def b5_def b6_def b7_def b8_def b9_def pre_def
  have buf: "Buffer q = pre @ b1 @ b2 @ b3 @ b4 @ b5 @ b6 @ b7 @ b8 @ b9"
    by (simp add: q(1) Encode_Buffer bs)
  have off: "Offset q = length pre" by (simp add: q(2) pre_def)
  from c have laws:
    "round_trips (PutUniqueId c) (GetUniqueId c)"
    "round_trips (PutRuntimeId c) (GetRuntimeId c)"
    "round_trips (PutUnsignedVarInt c) (GetUnsignedVarInt c)"
    "round_trips (PutVector c) (GetVector c)"
    "round_trips (\<lambda>v. PutRotation c v False) (GetRotation c False)"
    "round_trips_map (PutAttributeMap c) (GetAttributeMap c)"
    "round_trips_map (PutEntityData c) (GetEntityData c)"
    by (simp_all add: lawful_def)
  from round_trips_mapD [OF laws(6) maps(1), of "b8 @ b9"]
  obtain m7 where m7: "GetAttributeMap c (b7 @ b8 @ b9) = Some (m7, b8 @ b9)"
    "same_map m7 (Attributes pk)"
    by (auto simp: b7_def)
  from round_trips_mapD [OF laws(7) maps(2), of b9]
  obtain m8 where m8: "GetEntityData c (b8 @ b9) = Some (m8, b9)" "same_map m8 (EntityData pk)"
    by (auto simp: b8_def)
  have p1: "GetUniqueId c (b1 @ b2 @ b3 @ b4 @ b5 @ b6 @ b7 @ b8 @ b9) =
      Some (UniqueId pk, b2 @ b3 @ b4 @ b5 @ b6 @ b7 @ b8 @ b9)"
    unfolding b1_def by (rule round_tripsD [OF laws(1)])
  have p2: "GetRuntimeId c (b2 @ b3 @ b4 @ b5 @ b6 @ b7 @ b8 @ b9) =
      Some (RuntimeId pk, b3 @ b4 @ b5 @ b6 @ b7 @ b8 @ b9)"
    unfolding b2_def by (rule round_tripsD [OF laws(2)])
  have p3: "GetUnsignedVarInt c (b3 @ b4 @ b5 @ b6 @ b7 @ b8 @ b9) =
      Some (EntityType pk, b4 @ b5 @ b6 @ b7 @ b8 @ b9)"
    unfolding b3_def by (rule round_tripsD [OF laws(3)])
  have p4: "GetVector c (b4 @ b5 @ b6 @ b7 @ b8 @ b9) = Some (Position pk, b5 @ b6 @ b7 @ b8 @ b9)"
    unfolding b4_def by (rule round_tripsD [OF laws(4)])
  have p5: "GetVector c (b5 @ b6 @ b7 @ b8 @ b9) = Some (Motion pk, b6 @ b7 @ b8 @ b9)"
    unfolding b5_def by (rule round_tripsD [OF laws(4)])
  have p6: "GetRotation c False (b6 @ b7 @ b8 @ b9) = Some (Rotation pk, b7 @ b8 @ b9)"
    unfolding b6_def by (rule round_tripsD [OF laws(5)])
  define q1 where "q1 = q\<lparr>Offset := length pre + length b1, UniqueId := UniqueId pk\<rparr>"
  define q2 where "q2 = q1\<lparr>Offset := length pre + length b1 + length b2, RuntimeId := RuntimeId pk\<rparr>"
  define q3 where "q3 = q2\<lparr>Offset := length pre + length b1 + length b2 + length b3, EntityType := EntityType pk\<rparr>"
  define q4 where "q4 = q3\<lparr>Offset := length pre + length b1 + length b2 + length b3 + length b4, Position := Position pk\<rparr>"
  define q5 where "q5 = q4\<lparr>Offset := length pre + length b1 + length b2 + length b3 + length b4 + length b5, Motion := Motion pk\<rparr>"
  define q6 where "q6 = q5\<lparr>Offset := length pre + length b1 + length b2 + length b3 + length b4 + length b5 + length b6, Rotation := Rotation pk\<rparr>"
  define q7 where "q7 = q6\<lparr>Offset := length pre + length b1 + length b2 + length b3 + length b4 + length b5 + length b6 + length b7, Attributes := m7\<rparr>"
  define q8 where "q8 = q7\<lparr>Offset := length pre + length b1 + length b2 + length b3 + length b4 + length b5 + length b6 + length b7 + length b8, EntityData := m8\<rparr>"
  note qs = q1_def q2_def q3_def q4_def q5_def q6_def q7_def q8_def
  have g1: "get (GetUniqueId c) q = Some (UniqueId pk, q\<lparr>Offset := length pre + length b1\<rparr>)"
    using get_at [where pk=q and pre="pre" and bytes=b1 and rest="b2 @ b3 @ b4 @ b5 @ b6 @ b7 @ b8 @ b9" and
        parser="GetUniqueId c" and v="UniqueId pk"]
    by (simp add: buf off qs p1)
  have g2: "get (GetRuntimeId c) q1 = Some (RuntimeId pk, q1\<lparr>Offset := length pre + length b1 + length b2\<rparr>)"
    using get_at [where pk=q1 and pre="pre @ b1" and bytes=b2 and rest="b3 @ b4 @ b5 @ b6 @ b7 @ b8 @ b9" and
        parser="GetRuntimeId c" and v="RuntimeId pk"]
    by (simp add: buf off qs p2)
  have g3: "get (GetUnsignedVarInt c) q2 =
      Some (EntityType pk, q2\<lparr>Offset := length pre + length b1 + length b2 + length b3\<rparr>)"
    using get_at [where pk=q2 and pre="pre @ b1 @ b2" and bytes=b3 and rest="b4 @ b5 @ b6 @ b7 @ b8 @ b9" and
        parser="GetUnsignedVarInt c" and v="EntityType pk"]
    by (simp add: buf off qs p3)
  have g4: "get (GetVector c) q3 =
      Some (Position pk, q3\<lparr>Offset := length pre + length b1 + length b2 + length b3 + length b4\<rparr>)"
    using get_at [where pk=q3 and pre="pre @ b1 @ b2 @ b3" and bytes=b4 and rest="b5 @ b6 @ b7 @ b8 @ b9" and
        parser="GetVector c" and v="Position pk"]
    by (simp add: buf off qs p4)
  have g5: "get (GetVector c) q4 =
      Some (Motion pk, q4\<lparr>Offset := length pre + length b1 + length b2 + length b3 + length b4 + length b5\<rparr>)"
    using get_at [where pk=q4 and pre="pre @ b1 @ b2 @ b3 @ b4" and bytes=b5 and rest="b6 @ b7 @ b8 @ b9" and
        parser="GetVector c" and v="Motion pk"]
    by (simp add: buf off qs p5)
  have g6: "get (GetRotation c False) q5 =
      Some (Rotation pk, q5\<lparr>Offset := length pre + length b1 + length b2 + length b3 + length b4 + length b5 + length b6\<rparr>)"
    using get_at [where pk=q5 and pre="pre @ b1 @ b2 @ b3 @ b4 @ b5" and bytes=b6 and rest="b7 @ b8 @ b9" and
        parser="GetRotation c False" and v="Rotation pk"]
    by (simp add: buf off qs p6)
  have g7: "get (GetAttributeMap c) q6 =
      Some (m7, q6\<lparr>Offset := length pre + length b1 + length b2 + length b3 + length b4 + length b5 + length b6 + length b7\<rparr>)"
    using get_at [where pk=q6 and pre="pre @ b1 @ b2 @ b3 @ b4 @ b5 @ b6" and bytes=b7 and rest="b8 @ b9" and
        parser="GetAttributeMap c" and v="m7"]
    by (simp add: buf off qs m7(1))
  have g8: "get (GetEntityData c) q7 =
      Some (m8, q7\<lparr>Offset := length pre + length b1 + length b2 + length b3 + length b4 + length b5 + length b6 + length b7 + length b8\<rparr>)"
    using get_at [where pk=q7 and pre="pre @ b1 @ b2 @ b3 @ b4 @ b5 @ b6 @ b7" and bytes=b8 and rest="b9" and
        parser="GetEntityData c" and v="m8"]
    by (simp add: buf off qs m8(1))
  have "Decode c q = Some q8"
    unfolding Decode_def
    by (simp add: g1 q1_def [symmetric] g2 q2_def [symmetric] g3 q3_def [symmetric]
        g4 q4_def [symmetric] g5 q5_def [symmetric] g6 q6_def [symmetric]
        g7 q7_def [symmetric] g8 q8_def [symmetric])
  moreover have "same_fields q8 pk"
    by (simp add: same_fields_def qs m7(2) m8(2))
  moreover have "Buffer q8 = Buffer q" by (simp add: qs)
  moreover have "drop (Offset q8) (Buffer q8) = PutUnsignedVarInt c 0 @ post"
    by (simp add: qs buf b9_def)
  ultimately show ?thesis by blast
qed

section \<open>The cursor after the spec keeps the round-trip law\<close>

lemma unat_byte: "n < 256 \<Longrightarrow> unat (of_nat n :: byte) = n"
  by (simp add: unat_of_nat)

lemma get_put_uvarint: "get_uvarint (put_uvarint n @ rest) = Some (n, rest)"
proof (induction n rule: put_uvarint.induct)
  case (1 n)
  show ?case
  proof (cases "n < 128")
    case True
    then show ?thesis by (subst put_uvarint.simps) (simp add: unat_byte)
  next
    case False
    have b: "unat (128 + of_nat (n mod 128) :: byte) = 128 + n mod 128"
      using unat_byte [of "128 + n mod 128"] by simp
    from False 1 have "get_uvarint (put_uvarint (n div 128) @ rest) = Some (n div 128, rest)"
      by simp
    with False show ?thesis
      by (subst put_uvarint.simps) (simp add: b)
  qed
qed

lemma round_trips_uvarint: "round_trips put_uvarint get_uvarint"
  by (simp add: round_trips_def get_put_uvarint)

lemma unzigzag_zigzag: "unzigzag (zigzag i) = i"
proof (cases "0 \<le> i")
  case True
  define k where "k = nat i"
  have i: "i = int k" using True by (simp add: k_def)
  have "zigzag i = 2 * k" by (simp add: zigzag_def i)
  then show ?thesis by (simp add: unzigzag_def i)
next
  case False
  define k where "k = nat (- i - 1)"
  have i: "i = - int k - 1" using False by (simp add: k_def)
  have "zigzag i = 2 * k + 1" by (simp add: zigzag_def i)
  then show ?thesis by (simp add: unzigzag_def i)
qed

lemma round_trips_varint64: "round_trips put_varint64 get_varint64"
  by (simp add: round_trips_def put_varint64_def get_varint64_def get_put_uvarint unzigzag_zigzag)

lemma round_trips_uvarint64: "round_trips put_uvarint64 get_uvarint64"
  by (simp add: round_trips_def put_uvarint64_def get_uvarint64_def get_put_uvarint)

lemma round_trips_uvarint32: "round_trips put_uvarint32 get_uvarint32"
  by (simp add: round_trips_def put_uvarint32_def get_uvarint32_def get_put_uvarint)

lemma get_n_concat:
  assumes "round_trips w r"
  shows "get_n r (length vs) (concat (map w vs) @ rest) = Some (vs, rest)"
  by (induction vs) (simp_all add: round_tripsD [OF assms])

lemma round_trips_list:
  assumes "round_trips w r"
  shows "round_trips (put_list w) (get_list r)"
  by (simp add: round_trips_def put_list_def get_list_def get_put_uvarint get_n_concat [OF assms])

lemma round_trips_char: "round_trips put_char get_char"
proof -
  have "unat (of_nat (of_char ch) :: byte) = of_char ch" for ch
    by (simp add: unat_of_nat)
  then show ?thesis by (simp add: round_trips_def put_char_def get_char_def)
qed

lemma round_trips_string: "round_trips put_string get_string"
  unfolding put_string_def get_string_def by (rule round_trips_list [OF round_trips_char])

lemma round_trips_vector:
  assumes "round_trips w r"
  shows "round_trips (put_vector w) (get_vector r)"
  by (simp add: round_trips_def put_vector_def get_vector_def round_tripsD [OF assms]
      split: prod.splits)

lemma round_trips_attribute:
  assumes "round_trips w r"
  shows "round_trips (put_attribute w) (get_attribute r)"
  by (simp add: round_trips_def put_attribute_def get_attribute_def round_tripsD [OF assms]
      round_tripsD [OF round_trips_string] split: prod.splits)

lemma round_trips_entity_data:
  assumes "round_trips w r"
  shows "round_trips (put_entity_data w) (get_entity_data r)"
  by (simp add: round_trips_def put_entity_data_def get_entity_data_def
      round_tripsD [OF round_trips_uvarint32] round_tripsD [OF round_trips_list [OF assms]]
      split: prod.splits)

lemma same_map_sort_key: "is_map m \<Longrightarrow> same_map (sort_key fst m) m"
  by (simp add: same_map_def is_map_def distinct_map)

lemma round_trips_map_sorted:
  assumes "round_trips w r"
  shows "round_trips_map (put_map w) (get_map r)"
  unfolding round_trips_map_def put_map_def get_map_def
  using round_tripsD [OF round_trips_list [OF assms]] same_map_sort_key by blast

lemma lawful_spec_cursor:
  assumes "round_trips putf getf" and "round_trips (\<lambda>v. putr v False) (getr False)"
    and "round_trips putv getv"
  shows "lawful (spec_cursor putf getf putr getr putv getv)"
  using assms
  by (simp add: lawful_def spec_cursor_def round_trips_varint64 round_trips_uvarint64
      round_trips_uvarint32 round_trips_vector round_trips_map_sorted round_trips_attribute
      round_trips_entity_data)

lemma unat_mod_byte: "unat (of_nat (x mod 256) :: byte) = x mod 256"
  by (rule unat_byte) simp

lemma bytes_of_word32:
  fixes n :: nat
  assumes "n < 4294967296"
  shows "n mod 256 + 256 * (n div 256 mod 256) + 65536 * (n div 65536 mod 256) +
         16777216 * (n div 16777216 mod 256) = n"
proof -
  have 1: "n div 65536 = n div 256 div 256" and 2: "n div 16777216 = n div 256 div 256 div 256"
    by (simp_all add: div_mult2_eq)
  have 3: "n div 256 div 256 div 256 mod 256 = n div 256 div 256 div 256"
    using assms by (simp add: div_mult2_eq [symmetric] less_mult_imp_div_less)
  have "n = 256 * (n div 256) + n mod 256" by simp
  moreover have "n div 256 = 256 * (n div 256 div 256) + n div 256 mod 256" by simp
  moreover have "n div 256 div 256 = 256 * (n div 256 div 256 div 256) + n div 256 div 256 mod 256"
    by simp
  ultimately show ?thesis unfolding 1 2 3 by linarith
qed

lemma round_trips_float: "round_trips put_float get_float"
proof -
  have "get_float (put_float w @ rest) = Some (w, rest)" for w rest
  proof -
    have "unat w < 4294967296" using unsigned_less [of w, where ?'a=nat] by simp
    from bytes_of_word32 [OF this]
    have "of_nat (unat (of_nat (unat w mod 256) :: byte) +
            256 * unat (of_nat (unat w div 256 mod 256) :: byte) +
            65536 * unat (of_nat (unat w div 65536 mod 256) :: byte) +
            16777216 * unat (of_nat (unat w div 16777216 mod 256) :: byte)) = w"
      by (simp only: unat_mod_byte of_nat_unat ucast_id)
    then show ?thesis
      by (simp only: put_float_def get_float_def list.case append_Cons append_Nil)
  qed
  then show ?thesis by (simp add: round_trips_def)
qed

lemma lawful_example_cursor: "lawful example_cursor"
  unfolding example_cursor_def
  by (intro lawful_spec_cursor round_trips_float round_trips_vector) (simp_all add: put_byte_def get_byte_def round_trips_def)


lemma example_maps:
  "is_map example_attributes \<and> is_map example_entity_data \<and>
   is_map ([] :: (string, 32 word attribute) gomap) \<and> is_map ([] :: (32 word, byte list) gomap)"
  by (simp add: is_map_def example_attributes_def example_entity_data_def)

theorem AddEntityPacket_round_trip_witness:
  "lawful example_cursor \<and> is_map example_attributes \<and> is_map example_entity_data \<and>
   (\<exists>q'. Decode example_cursor
           (Encode example_cursor (example_packet example_attributes example_entity_data)) =
           Some q' \<and>
         same_fields q' (example_packet example_attributes example_entity_data)) \<and>
   (\<exists>q'. Decode example_cursor (Encode example_cursor (example_packet [] [])) = Some q' \<and>
         same_fields q' (example_packet [] []))"
proof -
  let ?A = example_attributes
  let ?E = example_entity_data
  have 1: "is_map (Attributes (example_packet ?A ?E))" "is_map (EntityData (example_packet ?A ?E))"
    using example_maps by (simp_all add: example_packet_def)
  have 2: "is_map (Attributes (example_packet [] []))" "is_map (EntityData (example_packet [] []))"
    by (simp_all add: example_packet_def is_map_def)
  have 3: "Offset (Encode example_cursor (example_packet A E)) = length (Buffer (example_packet A E))"
    for A E
    by (simp add: Encode_def put_def Let_def example_packet_def)
  show ?thesis
    using AddEntityPacket_round_trip [OF lawful_example_cursor 1, where post="[]" and
        q="Encode example_cursor (example_packet ?A ?E)"]
      AddEntityPacket_round_trip [OF lawful_example_cursor 2, where post="[]" and
        q="Encode example_cursor (example_packet [] [])"]
      3 lawful_example_cursor example_maps
    by auto
qed

section \<open>Encoding is independent of the order of the map entries\<close>

lemma same_first_components:
  assumes "inj_on fst S"
  shows "map fst xs = map fst ys \<Longrightarrow> set xs \<subseteq> S \<Longrightarrow> set ys \<subseteq> S \<Longrightarrow> xs = ys"
proof (induction xs arbitrary: ys)
  case Nil
  then show ?case by simp
next
  case (Cons x xs)
  then obtain y ys' where ys: "ys = y # ys'" by (cases ys) auto
  with Cons.prems have "fst x = fst y" "x \<in> S" "y \<in> S" by auto
  with assms have "x = y" by (auto dest: inj_onD)
  moreover have "xs = ys'" using Cons.IH [of ys'] Cons.prems ys by simp
  ultimately show ?case by (simp add: ys)
qed

lemma sort_key_same_map:
  assumes "same_map m m'"
  shows "sort_key fst m = sort_key fst m'"
proof -
  from assms have d: "distinct (map fst m)" "distinct (map fst m')" and s: "set m = set m'"
    by (simp_all add: same_map_def is_map_def)
  have inj: "inj_on fst (set m)" using d(1) by (simp add: distinct_map)
  have "map fst (sort_key fst m) = map fst (sort_key fst m')"
  proof (rule sorted_distinct_set_unique)
    show "sorted (map fst (sort_key fst m))" "sorted (map fst (sort_key fst m'))"
      by (rule sorted_sort_key)+
    show "distinct (map fst (sort_key fst m))" using d(1) by (simp add: distinct_map)
    show "distinct (map fst (sort_key fst m'))" using d(2) by (simp add: distinct_map)
    show "set (map fst (sort_key fst m)) = set (map fst (sort_key fst m'))" by (simp add: s)
  qed
  then show ?thesis
    by (rule same_first_components [OF inj]) (simp_all add: s)
qed

text \<open>
  C9. Two packets with the same field values are encoded to the same bytes: the map
  methods write the entries in ascending order of their keys, so that the order in
  which the runtime would enumerate a map has no part in the output. The methods for
  floating-point numbers, rotations and entity data values are arbitrary functions.
\<close>

theorem Encode_deterministic:
  assumes "same_fields p q" and "Buffer p = Buffer q"
  shows "Buffer (Encode (spec_cursor putf getf putr getr putv getv) p) =
         Buffer (Encode (spec_cursor putf getf putr getr putv getv) q)"
proof -
  from assms(1) have "sort_key fst (Attributes p) = sort_key fst (Attributes q)"
    and "sort_key fst (EntityData p) = sort_key fst (EntityData q)"
    by (simp_all add: same_fields_def sort_key_same_map)
  with assms show ?thesis
    by (simp add: Encode_Buffer same_fields_def spec_cursor_def put_map_def)
qed

theorem Encode_deterministic_witness:
  "same_fields (example_packet example_attributes example_entity_data)
     (example_packet (rev example_attributes) (rev example_entity_data)) \<and>
   example_attributes \<noteq> rev example_attributes \<and>
   Buffer (Encode example_cursor (example_packet example_attributes example_entity_data)) =
   Buffer (Encode example_cursor (example_packet (rev example_attributes) (rev example_entity_data)))"
proof -
  let ?p = "example_packet example_attributes example_entity_data"
  let ?q = "example_packet (rev example_attributes) (rev example_entity_data)"
  have s: "same_fields ?p ?q"
    by (auto simp: same_fields_def same_map_def is_map_def example_packet_def
        example_attributes_def example_entity_data_def)
  have b: "Buffer ?p = Buffer ?q" by (simp add: example_packet_def)
  have n: "example_attributes \<noteq> rev example_attributes"
    by (simp add: example_attributes_def)
  show ?thesis
    using Encode_deterministic [OF s b] s n unfolding example_cursor_def by simp
qed

text \<open>
  The bytes of the example packet: the count 2 of the attributes is followed by "armor"
  and then "health", the count 2 of the entity data by the key 2 and then the key 7.
\<close>

lemmas run_cursor =
  Encode_def put_def Let_def example_cursor_def spec_cursor_def example_packet_def
  put_varint64_def put_uvarint64_def put_uvarint32_def zigzag_def put_uvarint.simps
  put_vector_def put_float_def put_map_def put_list_def put_attribute_def put_entity_data_def
  put_string_def put_char_def put_byte_def example_attributes_def example_entity_data_def

lemma Encode_example_bytes:
  "Buffer (Encode example_cursor (example_packet example_attributes example_entity_data)) =
     [5, 172, 2, 64, 0, 0, 128, 63, 0, 0, 128, 66, 0, 0, 0, 192, 0, 0, 0, 0,
      0, 0, 0, 0, 0, 0, 0, 0, 0, 0, 180, 66, 0, 0, 0, 0, 0, 0, 180, 66, 2, 5,
      97, 114, 109, 111, 114, 0, 0, 0, 0, 0, 0, 160, 65, 0, 0, 0, 0, 0, 0, 0,
      0, 6, 104, 101, 97, 108, 116, 104, 0, 0, 0, 0, 0, 0, 160, 65, 0, 0,
      160, 65, 0, 0, 160, 65, 2, 2, 0, 7, 2, 1, 2, 0]"
  by (simp add: run_cursor)

end
